theory Spec2Isabelle
  imports Main
begin

section \<open>JavaScript strings and arrays\<close>

text \<open>
  Strings are lists of characters. The operations below are the \<open>String.prototype\<close>
  methods that Clause.ts calls, with the result JavaScript gives (\<open>-1\<close> for a failed
  search, clamped and swapped bounds for \<open>substring\<close>).
\<close>

definition startsWith :: "string \<Rightarrow> string \<Rightarrow> bool" where
  "startsWith s p = (take (length p) s = p)"

fun indexOf_from :: "string \<Rightarrow> string \<Rightarrow> nat \<Rightarrow> int" where
  "indexOf_from [] p i = (if p = [] then int i else - 1)"
| "indexOf_from (c # s) p i =
     (if startsWith (c # s) p then int i else indexOf_from s p (Suc i))"

definition indexOf :: "string \<Rightarrow> string \<Rightarrow> int" where
  "indexOf s p = indexOf_from s p 0"

fun lastIndexOf_from :: "string \<Rightarrow> string \<Rightarrow> nat \<Rightarrow> int \<Rightarrow> int" where
  "lastIndexOf_from [] p i found = (if p = [] then int i else found)"
| "lastIndexOf_from (c # s) p i found =
     lastIndexOf_from s p (Suc i) (if startsWith (c # s) p then int i else found)"

definition lastIndexOf :: "string \<Rightarrow> string \<Rightarrow> int" where
  "lastIndexOf s p = lastIndexOf_from s p 0 (- 1)"

definition includes_str :: "string \<Rightarrow> string \<Rightarrow> bool" where
  "includes_str s p = (indexOf s p \<noteq> - 1)"

definition clamp_index :: "string \<Rightarrow> int \<Rightarrow> nat" where
  "clamp_index s i = (if i < 0 then 0 else min (nat i) (length s))"

definition substring :: "string \<Rightarrow> int \<Rightarrow> int \<Rightarrow> string" where
  "substring s a b =
     (let x = clamp_index s a; y = clamp_index s b
      in take (max x y - min x y) (drop (min x y) s))"

definition substring_from :: "string \<Rightarrow> int \<Rightarrow> string" where
  "substring_from s a = drop (clamp_index s a) s"

definition slice :: "string \<Rightarrow> nat \<Rightarrow> nat \<Rightarrow> string" where
  "slice s a b = take (b - a) (drop a s)"

text \<open>White space and line terminators among the code units below 256.\<close>

definition isWhiteSpace :: "char \<Rightarrow> bool" where
  "isWhiteSpace c = (of_char c \<in> {9, 10, 11, 12, 13, 32, 160 :: nat})"

definition trim :: "string \<Rightarrow> string" where
  "trim s = rev (dropWhile isWhiteSpace (rev (dropWhile isWhiteSpace s)))"

text \<open>\<open>Array.prototype.join\<close>: an \<open>undefined\<close> element is joined as the empty string.\<close>

fun join :: "string option list \<Rightarrow> string \<Rightarrow> string" where
  "join [] sep = []"
| "join [x] sep = (case x of None \<Rightarrow> [] | Some s \<Rightarrow> s)"
| "join (x # y # ys) sep = (case x of None \<Rightarrow> [] | Some s \<Rightarrow> s) @ sep @ join (y # ys) sep"

definition lower_char :: "char \<Rightarrow> char" where
  "lower_char c =
     (let n = (of_char c :: nat) in if 65 \<le> n \<and> n \<le> 90 then char_of (n + 32) else c)"

definition upper_char :: "char \<Rightarrow> char" where
  "upper_char c =
     (let n = (of_char c :: nat) in if 97 \<le> n \<and> n \<le> 122 then char_of (n - 32) else c)"

definition toLowerCase :: "string \<Rightarrow> string" where
  "toLowerCase s = map lower_char s"

definition toUpperCase :: "string \<Rightarrow> string" where
  "toUpperCase s = map upper_char s"


section \<open>The document tree\<close>

text \<open>
  The document is a store of nodes addressed by references, so that the mutations of
  Clause.ts (\<open>setAttribute\<close>, \<open>prepend\<close>, \<open>replaceWith\<close>, \<open>innerHTML = ...\<close>) are seen
  through every reference to the node, as in the DOM. \<open>nodeType\<close> is 1 for an
  element and 3 for a text node; \<open>tagName\<close> of an element is its \<open>nodeName\<close>.
\<close>

type_synonym nref = nat

record element =
  nodeType :: nat
  nodeName :: string
  attributes :: "(string \<times> string) list"
  childNodes :: "nref list"
  parentNode :: "nref option"
  textData :: string

record document =
  nodes :: "nref \<Rightarrow> element"
  nextNode :: nref

definition hasAttribute :: "document \<Rightarrow> nref \<Rightarrow> string \<Rightarrow> bool" where
  "hasAttribute d n k = (map_of (attributes (nodes d n)) k \<noteq> None)"

definition getAttribute :: "document \<Rightarrow> nref \<Rightarrow> string \<Rightarrow> string option" where
  "getAttribute d n k = map_of (attributes (nodes d n)) k"

fun update_attr :: "string \<Rightarrow> string \<Rightarrow> (string \<times> string) list \<Rightarrow> (string \<times> string) list" where
  "update_attr k v [] = [(k, v)]"
| "update_attr k v (p # ps) = (if fst p = k then (k, v) # ps else p # update_attr k v ps)"

definition setAttribute :: "document \<Rightarrow> nref \<Rightarrow> string \<Rightarrow> string \<Rightarrow> document" where
  "setAttribute d n k v =
     d\<lparr>nodes := (nodes d)(n := (nodes d n)\<lparr>attributes := update_attr k v (attributes (nodes d n))\<rparr>)\<rparr>"

text \<open>\<open>node.id\<close> reflects the \<open>id\<close> attribute and is the empty string without one.\<close>

definition node_id :: "document \<Rightarrow> nref \<Rightarrow> string" where
  "node_id d n = (case getAttribute d n ''id'' of None \<Rightarrow> [] | Some v \<Rightarrow> v)"

definition children :: "document \<Rightarrow> nref \<Rightarrow> nref list" where
  "children d n = filter (\<lambda>m. nodeType (nodes d m) = 1) (childNodes (nodes d n))"

definition firstElementChild :: "document \<Rightarrow> nref \<Rightarrow> nref option" where
  "firstElementChild d n = (case children d n of [] \<Rightarrow> None | m # ms \<Rightarrow> Some m)"

text \<open>The element siblings after a node, in document order.\<close>

definition followingElementSiblings :: "document \<Rightarrow> nref \<Rightarrow> nref list" where
  "followingElementSiblings d n =
     (case parentNode (nodes d n) of
        None \<Rightarrow> []
      | Some p \<Rightarrow> drop 1 (dropWhile (\<lambda>m. m \<noteq> n) (children d p)))"

definition nextElementSibling :: "document \<Rightarrow> nref \<Rightarrow> nref option" where
  "nextElementSibling d n = (case followingElementSiblings d n of [] \<Rightarrow> None | m # ms \<Rightarrow> Some m)"

text \<open>
  \<open>classList\<close> splits the \<open>class\<close> attribute on ASCII white space: tab, line feed,
  form feed, carriage return and space.
\<close>

definition isASCIIWhiteSpace :: "char \<Rightarrow> bool" where
  "isASCIIWhiteSpace c = (of_char c \<in> {9, 10, 12, 13, 32 :: nat})"

fun split_ws :: "string \<Rightarrow> string \<Rightarrow> string list" where
  "split_ws [] cur = (if cur = [] then [] else [cur])"
| "split_ws (c # s) cur =
     (if isASCIIWhiteSpace c then (if cur = [] then split_ws s [] else cur # split_ws s [])
      else split_ws s (cur @ [c]))"

definition classList_contains :: "document \<Rightarrow> nref \<Rightarrow> string \<Rightarrow> bool" where
  "classList_contains d n c =
     (case getAttribute d n ''class'' of None \<Rightarrow> False | Some v \<Rightarrow> c \<in> set (split_ws v []))"

definition createElement :: "document \<Rightarrow> string \<Rightarrow> nref \<times> document" where
  "createElement d tag =
     (nextNode d,
      d\<lparr>nodes := (nodes d)(nextNode d :=
            \<lparr>nodeType = 1, nodeName = toUpperCase tag, attributes = [], childNodes = [],
             parentNode = None, textData = []\<rparr>),
        nextNode := Suc (nextNode d)\<rparr>)"

definition createTextNode :: "document \<Rightarrow> string \<Rightarrow> nref \<times> document" where
  "createTextNode d txt =
     (nextNode d,
      d\<lparr>nodes := (nodes d)(nextNode d :=
            \<lparr>nodeType = 3, nodeName = ''#text'', attributes = [], childNodes = [],
             parentNode = None, textData = txt\<rparr>),
        nextNode := Suc (nextNode d)\<rparr>)"

text \<open>Taking a node out of its parent's child list, as every DOM insertion does first.\<close>

definition detach :: "document \<Rightarrow> nref \<Rightarrow> document" where
  "detach d m =
     (case parentNode (nodes d m) of
        None \<Rightarrow> d
      | Some p \<Rightarrow>
          d\<lparr>nodes := (nodes d)
                (p := (nodes d p)\<lparr>childNodes := filter (\<lambda>x. x \<noteq> m) (childNodes (nodes d p))\<rparr>,
                 m := (nodes d m)\<lparr>parentNode := None\<rparr>)\<rparr>)"

definition append_node :: "document \<Rightarrow> nref \<Rightarrow> nref \<Rightarrow> document" where
  "append_node d n m =
     (let d1 = detach d m
      in d1\<lparr>nodes := (nodes d1)
                (n := (nodes d1 n)\<lparr>childNodes := childNodes (nodes d1 n) @ [m]\<rparr>,
                 m := (nodes d1 m)\<lparr>parentNode := Some n\<rparr>)\<rparr>)"

definition prepend :: "document \<Rightarrow> nref \<Rightarrow> nref \<Rightarrow> document" where
  "prepend d n m =
     (let d1 = detach d m
      in d1\<lparr>nodes := (nodes d1)
                (n := (nodes d1 n)\<lparr>childNodes := m # childNodes (nodes d1 n)\<rparr>,
                 m := (nodes d1 m)\<lparr>parentNode := Some n\<rparr>)\<rparr>)"

fun set_parents :: "(nref \<Rightarrow> element) \<Rightarrow> nref option \<Rightarrow> nref list \<Rightarrow> (nref \<Rightarrow> element)" where
  "set_parents f p [] = f"
| "set_parents f p (m # ms) = set_parents (f(m := (f m)\<lparr>parentNode := p\<rparr>)) p ms"

fun detach_all :: "document \<Rightarrow> nref list \<Rightarrow> document" where
  "detach_all d [] = d"
| "detach_all d (m # ms) = detach_all (detach d m) ms"

fun splice_at :: "nref \<Rightarrow> nref list \<Rightarrow> nref list \<Rightarrow> nref list" where
  "splice_at x new [] = []"
| "splice_at x new (c # cs) = (if c = x then new @ cs else c # splice_at x new cs)"

text \<open>\<open>dl.replaceWith(...paras)\<close>: nothing happens to a node without a parent.\<close>

definition replaceWith :: "document \<Rightarrow> nref \<Rightarrow> nref list \<Rightarrow> document" where
  "replaceWith d x new =
     (case parentNode (nodes d x) of
        None \<Rightarrow> d
      | Some p \<Rightarrow>
          (let d1 = detach_all d (filter (\<lambda>m. m \<noteq> x) new);
               f1 = (nodes d1)(p := (nodes d1 p)\<lparr>childNodes := splice_at x new (childNodes (nodes d1 p))\<rparr>);
               f2 = (if x \<in> set new then f1 else f1(x := (f1 x)\<lparr>parentNode := None\<rparr>))
           in d1\<lparr>nodes := set_parents f2 (Some p) new\<rparr>))"


section \<open>The data model\<close>

datatype exn = ParseError string nat | TypeError string | Error string

text \<open>
  Modelled from the spec: the declaration of \<open>Type\<close> (Biblio.ts) is not among the
  sources. The specification gives it as a recursive tagged tree: named/primitive,
  list-of, record, union-of-N, or completion-wrapper. Clause.ts reads only the tag
  (\<open>kind\<close>) and a union's members (\<open>types\<close>).
\<close>

datatype Type =
    Named string
  | ListOf Type
  | RecordOf "(string \<times> Type) list"
  | Union "Type list"
  | Completion "Type option"

fun is_completion :: "Type \<Rightarrow> bool" where
  "is_completion (Completion t) = True"
| "is_completion t = False"

record signature =
  parameters :: "(string \<times> Type option) list"
  optionalParameters :: "(string \<times> Type option) list"
  return :: "Type option"

text \<open>The fields of a parsed header (header-parser.ts) that Clause.ts reads.\<close>

record param =
  param_name :: string
  param_type :: "string option"
  typeOffset :: nat
  wrappingTag :: "string option"

record ParsedHeader =
  ph_name :: string
  params :: "param list"
  optionalParams :: "param list"
  returnType :: "string option"
  returnOffset :: nat

datatype parse_result = Failure string | Parsed ParsedHeader

record formatted =
  name :: "string option"
  formattedHeader :: "string option"
  formattedParams :: "string option"
  formattedReturnType :: "string option"

record dl_fields =
  description :: "nref option"
  dl_for :: "nref option"
  dl_effects :: "string list"
  redefinition :: bool
  dl_skipGlobalChecks :: bool
  dl_skipReturnChecks :: bool

record location =
  source :: string
  startTag_endOffset :: nat
  endTag_startOffset :: nat

record warning =
  w_type :: string
  ruleId :: string
  message :: string
  w_node :: "nref option"
  w_attr :: "string option"
  nodeRelativeLine :: "nat option"
  nodeRelativeColumn :: "nat option"

definition node_warning :: "string \<Rightarrow> string \<Rightarrow> nref \<Rightarrow> warning" where
  "node_warning rule msg n =
     \<lparr>w_type = ''node'', ruleId = rule, message = msg, w_node = Some n, w_attr = None,
      nodeRelativeLine = None, nodeRelativeColumn = None\<rparr>"

definition contents_warning :: "string \<Rightarrow> string \<Rightarrow> nref \<Rightarrow> nat \<Rightarrow> nat \<Rightarrow> warning" where
  "contents_warning rule msg n line col =
     \<lparr>w_type = ''contents'', ruleId = rule, message = msg, w_node = Some n, w_attr = None,
      nodeRelativeLine = Some line, nodeRelativeColumn = Some col\<rparr>"

definition attr_warning :: "string \<Rightarrow> string \<Rightarrow> nref \<Rightarrow> string \<Rightarrow> warning" where
  "attr_warning rule msg n a =
     \<lparr>w_type = ''attr'', ruleId = rule, message = msg, w_node = Some n, w_attr = Some a,
      nodeRelativeLine = None, nodeRelativeColumn = None\<rparr>"

text \<open>
  Clauses are objects held by reference (the clause stack, the parent link, the
  subclause lists and the effect worklist all point at the same object), so they live
  in a heap addressed by \<open>cref\<close>. Notes and examples are objects of classes outside
  Clause.ts and are known here by a reference only.
\<close>

type_synonym cref = nat
type_synonym note_ref = nat
type_synonym example_ref = nat

text \<open>
  \<open>title\<close> and \<open>titleHTML\<close> are declared with a definite-assignment assertion and the
  constructor assigns them only when it finds no header; the tree walker assigns them
  otherwise. \<open>Unassigned\<close> is the field before that assignment.
\<close>

datatype 'a assigned = Unassigned | Assigned 'a

record clause =
  node :: nref
  parentClause :: "cref option"
  clause_id :: "string option"
  namespace :: string
  header :: "nref option"
  title :: "string option assigned"
  titleHTML :: "string assigned"
  subclauses :: "cref list"
  number :: string
  aoid :: "string option"
  clause_type :: "string option"
  clause_notes :: "note_ref list"
  editorNotes :: "note_ref list"
  examples :: "example_ref list"
  effects :: "string list"
  clause_signature :: "signature option"
  skipGlobalChecks :: bool
  skipReturnChecks :: bool
  isAnnex :: bool
  isBackMatter :: bool
  isNormative :: bool

text \<open>
  The two object literals that \<open>Clause.exit\<close> hands to the bibliography. The op entry
  holds the clause's \<open>effects\<close> array itself, not a copy: \<open>op_effects\<close> is the clause
  that owns the array. \<open>op_skipGlobalChecks\<close> is \<open>None\<close> when the property is not set.
\<close>

record clause_entry =
  ce_id :: "string option"
  ce_aoid :: "string option"
  ce_title :: "string option assigned"
  ce_titleHTML :: "string assigned"
  ce_number :: string

record op_entry =
  op_aoid :: string
  op_refId :: "string option"
  op_kind :: "string option"
  op_signature :: "signature option"
  op_effects :: cref
  op_node :: nref
  op_skipReturnChecks :: bool
  op_skipGlobalChecks :: "bool option"

datatype entry = ClauseEntry clause_entry | OpEntry op_entry

text \<open>
  Modelled from the spec: the bibliography (Biblio.ts) is not among the sources.
  \<open>createNamespace\<close> registers a namespace with its parent; \<open>add\<close> inserts an entry
  into exactly the namespace given, with no propagation to other namespaces;
  \<open>keysForNamespace\<close> returns the aoid keys directly present in the namespace, the
  keys of its op entries (clause entries are keyed by id, in a separate key space).
  Entries are kept in insertion order.
\<close>

record biblio =
  namespaces :: "(string \<times> string) list"
  entries :: "string \<Rightarrow> entry list"

definition createNamespace :: "biblio \<Rightarrow> string \<Rightarrow> string \<Rightarrow> biblio" where
  "createNamespace b ns parent = b\<lparr>namespaces := namespaces b @ [(ns, parent)]\<rparr>"

definition add :: "biblio \<Rightarrow> entry \<Rightarrow> string \<Rightarrow> biblio" where
  "add b e ns = b\<lparr>entries := (entries b)(ns := entries b ns @ [e])\<rparr>"

fun op_keys :: "entry list \<Rightarrow> string list" where
  "op_keys [] = []"
| "op_keys (OpEntry e # es) = op_aoid e # op_keys es"
| "op_keys (ClauseEntry e # es) = op_keys es"

definition keysForNamespace :: "biblio \<Rightarrow> string \<Rightarrow> string set" where
  "keysForNamespace b ns = set (op_keys (entries b ns))"

text \<open>
  What the clause records for later linking of the label text: the entry pushed on
  \<open>spec._textNodes[namespace]\<close>.
\<close>

record textNode_entry =
  tn_node :: nref
  tn_clause :: cref
  tn_inAlg :: bool
  tn_currentId :: "string option"

datatype build_call = NoteBuild note_ref "nat option" | ExampleBuild example_ref "nat option"

text \<open>
  The spec object: the document, the clause objects, the bibliography, the
  diagnostics, the effect worklist (a \<open>Map\<close>, in insertion order), the text-node
  registry, the root subclause list, and the calls made to \<open>Note.build\<close> and
  \<open>Example.build\<close>, whose classes are outside Clause.ts: a call is recorded with the
  label it was given.
\<close>

record spec =
  doc :: document
  heap :: "cref \<Rightarrow> clause"
  nextClause :: cref
  spec_namespace :: string
  spec_biblio :: biblio
  warnings :: "warning list"
  effectWorklist :: "(string \<times> cref list) list"
  textNodes :: "string \<Rightarrow> textNode_entry list option"
  spec_subclauses :: "cref list"
  built :: "build_call list"

text \<open>
  Modelled from the spec: \<open>spec.warn\<close> (Spec.ts) is not among the sources. The
  diagnostics sink is append-only and every call is non-fatal.
\<close>

definition warn :: "spec \<Rightarrow> warning \<Rightarrow> spec" where
  "warn sp w = sp\<lparr>warnings := warnings sp @ [w]\<rparr>"

definition warn_all :: "spec \<Rightarrow> warning list \<Rightarrow> spec" where
  "warn_all sp ws = sp\<lparr>warnings := warnings sp @ ws\<rparr>"

definition update_clause :: "spec \<Rightarrow> cref \<Rightarrow> (clause \<Rightarrow> clause) \<Rightarrow> spec" where
  "update_clause sp c f = sp\<lparr>heap := (heap sp)(c := f (heap sp c))\<rparr>"

record 'n Context =
  ctx_spec :: spec
  ctx_node :: nref
  clauseStack :: "cref list"
  clauseNumberer :: 'n
  inAlg :: bool
  currentId :: "string option"

text \<open>
  The collaborators of Clause.ts whose code is outside it: the superclass constructor
  (\<open>Builder\<close>, called as \<open>super(spec, node)\<close>), the header and type grammars, the
  header and preamble formatters, source locations, the serialisation of the tree
  (\<open>innerHTML\<close>) and the clause numberer. The superclass constructor receives the spec
  and the node and returns the spec as it leaves it: it may warn. The formatters that
  receive the spec may warn: they return their diagnostics. Those that build nodes
  return the document.
\<close>

record 'n env =
  Builder_init :: "spec \<Rightarrow> nref \<Rightarrow> spec"
  parseH1 :: "string \<Rightarrow> parse_result"
  TypeParser_parse :: "string \<Rightarrow> exn + Type"
  header_formatter :: "document \<Rightarrow> nref \<Rightarrow> parse_result \<Rightarrow> warning list \<times> formatted"
  parseStructuredHeaderDl :: "document \<Rightarrow> string option \<Rightarrow> nref \<Rightarrow> warning list \<times> dl_fields"
  formatPreamble :: "document \<Rightarrow> nref \<Rightarrow> nref \<Rightarrow> string option \<Rightarrow> string \<Rightarrow> string \<Rightarrow>
     string option \<Rightarrow> nref option \<Rightarrow> nref option \<Rightarrow> warning list \<times> nref list \<times> document"
  locate :: "document \<Rightarrow> nref \<Rightarrow> location option"
  offsetToLineAndColumn :: "string \<Rightarrow> nat \<Rightarrow> nat \<times> nat"
  get_innerHTML :: "document \<Rightarrow> nref \<Rightarrow> string"
  set_innerHTML :: "document \<Rightarrow> nref \<Rightarrow> string \<Rightarrow> document"
  numberer_next :: "'n \<Rightarrow> spec \<Rightarrow> cref list \<Rightarrow> nref \<Rightarrow> string \<times> 'n"


section \<open>Clause.ts\<close>

definition aoidTypes :: "string list" where
  "aoidTypes =
     [''abstract operation'',
      ''sdo'',
      ''syntax-directed operation'',
      ''host-defined abstract operation'',
      ''implementation-defined abstract operation'',
      ''numeric method'']"

definition SPECIAL_KINDS_MAP :: "(string \<times> string) list" where
  "SPECIAL_KINDS_MAP =
     [(''normative-optional'', ''Normative Optional''),
      (''legacy'', ''Legacy''),
      (''deprecated'', ''Deprecated'')]"

definition SPECIAL_KINDS :: "string list" where
  "SPECIAL_KINDS = map fst SPECIAL_KINDS_MAP"

text \<open>
  Modelled from the spec: \<open>traverseWhile\<close> (utils.ts) is not among the sources. It
  walks from a node along one relationship for as long as the predicate holds (once
  only, with the option \<open>once\<close>) and returns the node it stops at, or null. Along
  \<open>nextElementSibling\<close> the walk runs over the node's following element siblings.
\<close>

definition traverseWhile_siblings :: "document \<Rightarrow> nref option \<Rightarrow> (nref \<Rightarrow> bool) \<Rightarrow> nref option" where
  "traverseWhile_siblings d start pred =
     (case start of
        None \<Rightarrow> None
      | Some n \<Rightarrow>
          (case dropWhile pred (n # followingElementSiblings d n) of
             [] \<Rightarrow> None
           | m # ms \<Rightarrow> Some m))"

definition traverseWhile_once ::
  "document \<Rightarrow> nref option \<Rightarrow> (document \<Rightarrow> nref \<Rightarrow> nref option) \<Rightarrow> (nref \<Rightarrow> bool) \<Rightarrow> nref option" where
  "traverseWhile_once d start rel pred =
     (case start of
        None \<Rightarrow> None
      | Some n \<Rightarrow> if pred n then rel d n else Some n)"

definition extractStructuredHeader :: "document \<Rightarrow> nref \<Rightarrow> nref option" where
  "extractStructuredHeader d hdr =
     (case traverseWhile_siblings d (nextElementSibling d hdr) (\<lambda>el. nodeName (nodes d el) = ''DEL'') of
        None \<Rightarrow> None
      | Some dl \<Rightarrow>
          if nodeName (nodes d dl) \<noteq> ''DL'' \<or> \<not> classList_contains d dl ''header'' then None
          else Some dl)"

subsection \<open>parseType and parsedHeaderToSignature\<close>

definition parseType :: "'n env \<Rightarrow> string \<Rightarrow> nat \<Rightarrow> exn + Type" where
  "parseType E ty offset =
     (case TypeParser_parse E ty of
        Inr t \<Rightarrow> Inr t
      | Inl (ParseError msg off) \<Rightarrow> Inl (ParseError msg (off + offset))
      | Inl e \<Rightarrow> Inl e)"

fun signature_params :: "'n env \<Rightarrow> param list \<Rightarrow> exn + (string \<times> Type option) list" where
  "signature_params E [] = Inr []"
| "signature_params E (p # ps) =
     (case (case param_type p of
              None \<Rightarrow> Inr None
            | Some ty \<Rightarrow> (case parseType E ty (typeOffset p) of Inl e \<Rightarrow> Inl e | Inr t \<Rightarrow> Inr (Some t))) of
        Inl e \<Rightarrow> Inl e
      | Inr t \<Rightarrow>
          (case signature_params E ps of
             Inl e \<Rightarrow> Inl e
           | Inr rest \<Rightarrow> Inr ((param_name p, t) # rest)))"

definition parsedHeaderToSignature :: "'n env \<Rightarrow> ParsedHeader \<Rightarrow> exn + signature" where
  "parsedHeaderToSignature E parsedHeader =
     (case signature_params E (filter (\<lambda>p. wrappingTag p \<noteq> Some ''del'') (params parsedHeader)) of
        Inl e \<Rightarrow> Inl e
      | Inr ps \<Rightarrow>
          (case signature_params E (filter (\<lambda>p. wrappingTag p \<noteq> Some ''del'') (optionalParams parsedHeader)) of
             Inl e \<Rightarrow> Inl e
           | Inr ops \<Rightarrow>
               (case (case returnType parsedHeader of
                        None \<Rightarrow> Inr None
                      | Some ty \<Rightarrow>
                          (case parseType E ty (returnOffset parsedHeader) of
                             Inl e \<Rightarrow> Inl e
                           | Inr t \<Rightarrow> Inr (Some t))) of
                  Inl e \<Rightarrow> Inl e
                | Inr r \<Rightarrow> Inr \<lparr>parameters = ps, optionalParameters = ops, return = r\<rparr>)))"

subsection \<open>buildStructuredHeader\<close>

text \<open>
  Modelled from the spec: \<open>formatHeader\<close> (header-parser.ts) is not among the sources.
  After a grammar failure the literal header content is kept and the consumers
  substitute their placeholders: it yields no name, no formatted header, no formatted
  parameters and no formatted return type. What it formats from a parsed header, and
  the diagnostics it emits, are the formatter's.
\<close>

definition formatHeader :: "'n env \<Rightarrow> document \<Rightarrow> nref \<Rightarrow> parse_result \<Rightarrow> warning list \<times> formatted" where
  "formatHeader E d hdr parseResult =
     (case parseResult of
        Failure msg \<Rightarrow>
          (fst (header_formatter E d hdr parseResult),
           \<lparr>name = None, formattedHeader = None, formattedParams = None, formattedReturnType = None\<rparr>)
      | Parsed ph \<Rightarrow> header_formatter E d hdr parseResult)"

text \<open>Lines 246 to 255: the header source between the header's own tags.\<close>

definition headerSource_of :: "'n env \<Rightarrow> document \<Rightarrow> nref \<Rightarrow> string" where
  "headerSource_of E d hdr =
     (case locate E d hdr of
        Some headerLocation \<Rightarrow>
          slice (source headerLocation) (startTag_endOffset headerLocation) (endTag_startOffset headerLocation)
      | None \<Rightarrow> get_innerHTML E d hdr)"

text \<open>
  Lines 257 to 276: the signature is compiled only from a parsed header; a
  \<open>ParseError\<close> of the type grammar becomes a diagnostic, any other exception is
  thrown again.
\<close>

definition compile_signature ::
  "'n env \<Rightarrow> cref \<Rightarrow> nref \<Rightarrow> string \<Rightarrow> parse_result \<Rightarrow> spec \<Rightarrow> exn + spec" where
  "compile_signature E this hdr headerSource parseResult sp =
     (case parseResult of
        Failure msg \<Rightarrow> Inr sp
      | Parsed ph \<Rightarrow>
          (case parsedHeaderToSignature E ph of
             Inr sig \<Rightarrow> Inr (update_clause sp this (\<lambda>c. c\<lparr>clause_signature := Some sig\<rparr>))
           | Inl (ParseError msg off) \<Rightarrow>
               (case offsetToLineAndColumn E headerSource off of
                  (line, column) \<Rightarrow>
                    Inr (warn sp (contents_warning ''type-parsing'' msg hdr line column)))
           | Inl e \<Rightarrow> Inl e))"

text \<open>Lines 282 to 291.\<close>

definition check_numeric_method :: "string option \<Rightarrow> string option \<Rightarrow> nref \<Rightarrow> spec \<Rightarrow> spec" where
  "check_numeric_method ty nm hdr sp =
     (if ty = Some ''numeric method'' \<and> nm \<noteq> None \<and> \<not> includes_str (the nm) ''::''
      then warn sp (contents_warning ''numeric-method-for''
             ''numeric methods should be of the form `Type::operation`'' hdr 1 1)
      else sp)"

text \<open>Lines 292 to 307: the header as it is rendered.\<close>

definition render_header :: "'n env \<Rightarrow> string option \<Rightarrow> string option \<Rightarrow> nref \<Rightarrow> document \<Rightarrow> document" where
  "render_header E ty fmtHeader hdr d =
     (if ty = Some ''sdo'' \<and>
         includes_str (case fmtHeader of Some h \<Rightarrow> h | None \<Rightarrow> get_innerHTML E d hdr) ''(''
      then
        (let currentHeader = (case fmtHeader of Some h \<Rightarrow> h | None \<Rightarrow> get_innerHTML E d hdr);
             d1 = set_innerHTML E d hdr
                    (trim (substring currentHeader 0 (indexOf currentHeader ''('') @
                           substring_from currentHeader (lastIndexOf currentHeader '')'' + 1)))
         in if length (children d1 hdr) = 1 \<and>
               nodeName (nodes d1 (hd (children d1 hdr))) \<in> set [''INS'', ''DEL'', ''MARK'']
            then set_innerHTML E d1 (hd (children d1 hdr))
                   (trim (get_innerHTML E d1 (hd (children d1 hdr))))
            else d1)
      else
        (case fmtHeader of
           Some h \<Rightarrow> set_innerHTML E d hdr h
         | None \<Rightarrow> d))"

text \<open>Lines 331 to 344.\<close>

definition assign_aoid :: "cref \<Rightarrow> bool \<Rightarrow> string option \<Rightarrow> string option \<Rightarrow> spec \<Rightarrow> spec" where
  "assign_aoid this redef nm ty sp =
     (if \<not> redef then
        (if hasAttribute (doc sp) (node (heap sp this)) ''aoid'' then
           warn sp (attr_warning ''header-format''
             ''nodes with structured headers should not include an AOID''
             (node (heap sp this)) ''aoid'')
         else if nm \<noteq> None \<and> ty \<noteq> None \<and> the ty \<in> set aoidTypes then
           update_clause
             (sp\<lparr>doc := setAttribute (doc sp) (node (heap sp this)) ''aoid'' (the nm)\<rparr>)
             this (\<lambda>c. c\<lparr>aoid := nm\<rparr>)
         else sp)
      else sp)"

text \<open>Lines 350 to 355: the effect worklist is a \<open>Map\<close> from effect names to clauses.\<close>

fun worklist_push :: "(string \<times> cref list) list \<Rightarrow> string \<Rightarrow> cref \<Rightarrow> (string \<times> cref list) list" where
  "worklist_push [] effect this = [(effect, [this])]"
| "worklist_push (p # ps) effect this =
     (if fst p = effect then (effect, snd p @ [this]) # ps else p # worklist_push ps effect this)"

fun push_effects :: "(string \<times> cref list) list \<Rightarrow> string list \<Rightarrow> cref \<Rightarrow> (string \<times> cref list) list" where
  "push_effects wl [] this = wl"
| "push_effects wl (effect # es) this = push_effects (worklist_push wl effect this) es this"

definition buildStructuredHeader :: "'n env \<Rightarrow> cref \<Rightarrow> nref \<Rightarrow> nref \<Rightarrow> spec \<Rightarrow> exn + spec" where
  "buildStructuredHeader E this hdr headerSurrogate sp =
     (case extractStructuredHeader (doc sp) headerSurrogate of
        None \<Rightarrow> Inr sp
      | Some dl \<Rightarrow>
          (let ty = clause_type (heap sp this);
               headerSource = headerSource_of E (doc sp) hdr;
               parseResult = parseH1 E headerSource
           in case compile_signature E this hdr headerSource parseResult sp of
                Inl e \<Rightarrow> Inl e
              | Inr sp1 \<Rightarrow>
                  (case formatHeader E (doc sp1) hdr parseResult of
                     (ws2, fh) \<Rightarrow>
                       (let sp2 = warn_all sp1 ws2;
                            sp3 = check_numeric_method ty (name fh) hdr sp2;
                            sp4 = sp3\<lparr>doc := render_header E ty (formattedHeader fh) hdr (doc sp3)\<rparr>
                        in case parseStructuredHeaderDl E (doc sp4) ty dl of
                             (ws5, dlf) \<Rightarrow>
                               (let sp5 = warn_all sp4 ws5
                                in case formatPreamble E (doc sp5) (node (heap sp5 this)) dl ty
                                          (case name fh of Some n \<Rightarrow> n | None \<Rightarrow> ''UNKNOWN'')
                                          (case formattedParams fh of Some ps \<Rightarrow> ps
                                             | None \<Rightarrow> ''UNPARSEABLE ARGUMENTS'')
                                          (formattedReturnType fh) (dl_for dlf) (description dlf) of
                                     (ws6, paras, d6) \<Rightarrow>
                                       (let sp6 = (warn_all sp5 ws6)\<lparr>doc := replaceWith d6 dl paras\<rparr>;
                                            sp7 = assign_aoid this (redefinition dlf) (name fh) ty sp6;
                                            sp8 = update_clause sp7 this
                                                    (\<lambda>c. c\<lparr>skipGlobalChecks := dl_skipGlobalChecks dlf,
                                                            skipReturnChecks := dl_skipReturnChecks dlf,
                                                            effects := effects c @ dl_effects dlf\<rparr>)
                                        in Inr (sp8\<lparr>effectWorklist :=
                                                   push_effects (effectWorklist sp8) (dl_effects dlf) this\<rparr>)))))))"


subsection \<open>The constructor\<close>

definition Clause_new :: "'n env \<Rightarrow> spec \<Rightarrow> nref \<Rightarrow> cref option \<Rightarrow> string \<Rightarrow> exn + cref \<times> spec" where
  "Clause_new E sp nd parent num =
     (let this = nextClause sp;
          spb = Builder_init E sp nd;
          d = doc spb;
          annex = (nodeName (nodes d nd) = ''EMU-ANNEX'');
          parentNamespace = (case parent of Some p \<Rightarrow> namespace (heap spb p) | None \<Rightarrow> spec_namespace spb);
          ns = (case getAttribute d nd ''namespace'' of Some v \<Rightarrow> v | None \<Rightarrow> parentNamespace);
          bib = (case getAttribute d nd ''namespace'' of
                   Some v \<Rightarrow> createNamespace (spec_biblio spb) v parentNamespace
                 | None \<Rightarrow> spec_biblio spb);
          c0 = \<lparr>node = nd,
                parentClause = parent,
                clause_id = getAttribute d nd ''id'',
                namespace = ns,
                header = None,
                title = Unassigned,
                titleHTML = Unassigned,
                subclauses = [],
                number = num,
                aoid = (if getAttribute d nd ''aoid'' = Some [] then Some (node_id d nd)
                        else getAttribute d nd ''aoid''),
                clause_type = (if getAttribute d nd ''type'' = Some [] then None
                               else getAttribute d nd ''type''),
                clause_notes = [],
                editorNotes = [],
                examples = [],
                effects = [],
                clause_signature = None,
                skipGlobalChecks = False,
                skipReturnChecks = False,
                isAnnex = annex,
                isBackMatter = (annex \<and> hasAttribute d nd ''back-matter''),
                isNormative = (\<not> annex \<or> hasAttribute d nd ''normative'')\<rparr>;
          sp0 = spb\<lparr>heap := (heap spb)(this := c0), nextClause := Suc this, spec_biblio := bib\<rparr>;
          hdr = traverseWhile_siblings d (firstElementChild d nd)
                  (\<lambda>el. nodeName (nodes d el) = ''DEL'' \<or>
                        (nodeName (nodes d el) = ''SPAN'' \<and> length (children d el) = 0));
          headerH1 = traverseWhile_once d hdr firstElementChild (\<lambda>el. nodeName (nodes d el) = ''INS'')
      in case (case headerH1 of
                 None \<Rightarrow>
                   Inr (None, warn sp0 (node_warning ''missing-header'' ''could not locate header element'' nd))
               | Some h1 \<Rightarrow>
                   (case hdr of
                      None \<Rightarrow> Inl (TypeError ''header is null'')
                    | Some h0 \<Rightarrow>
                        if nodeName (nodes d h1) \<noteq> ''H1'' then
                          Inr (None,
                               warn sp0 (node_warning ''missing-header''
                                 (''could not locate header element; found <'' @
                                  toLowerCase (nodeName (nodes d h0)) @ ''> before any <h1>'') h0))
                        else
                          (case buildStructuredHeader E this h1 h0 sp0 of
                             Inl e \<Rightarrow> Inl e
                           | Inr sp1 \<Rightarrow> Inr (Some h1, sp1)))) of
           Inl e \<Rightarrow> Inl e
         | Inr (h, sp2) \<Rightarrow>
             Inr (this,
                  update_clause sp2 this
                    (\<lambda>c. if h = None
                         then c\<lparr>header := h, title := Assigned (Some ''UNKNOWN''),
                               titleHTML := Assigned ''UNKNOWN''\<rparr>
                         else c\<lparr>header := h\<rparr>)))"

subsection \<open>buildNotes, buildExamples and canHaveEffect\<close>

text \<open>\<open>forEach((x, i) => x.build(i + 1))\<close>, from index \<open>i\<close> on.\<close>

fun build_each :: "(nat \<Rightarrow> nat option \<Rightarrow> build_call) \<Rightarrow> nat list \<Rightarrow> nat \<Rightarrow> build_call list" where
  "build_each mk [] i = []"
| "build_each mk (x # xs) i = mk x (Some (i + 1)) # build_each mk xs (Suc i)"

definition buildNotes :: "clause \<Rightarrow> build_call list" where
  "buildNotes c =
     (if length (clause_notes c) = 1 then [NoteBuild (clause_notes c ! 0) None]
      else build_each NoteBuild (clause_notes c) 0)
     @ map (\<lambda>note. NoteBuild note None) (editorNotes c)"

definition buildExamples :: "clause \<Rightarrow> build_call list" where
  "buildExamples c =
     (if length (examples c) = 1 then [ExampleBuild (examples c ! 0) None]
      else build_each ExampleBuild (examples c) 0)"

definition canHaveEffect :: "clause \<Rightarrow> string \<Rightarrow> exn + bool" where
  "canHaveEffect c effectName =
     (case title c of
        Unassigned \<Rightarrow> Inl (TypeError ''title is undefined'')
      | Assigned None \<Rightarrow> Inr True
      | Assigned (Some t) \<Rightarrow>
          if startsWith t ''Static Semantics:'' then
            (if effectName = ''user-code'' then Inr False else Inr True)
          else Inr True)"

subsection \<open>enter\<close>

definition enter :: "'n env \<Rightarrow> 'n Context \<Rightarrow> exn + 'n Context" where
  "enter E ctx =
     (let nd = ctx_node ctx;
          sp1 = (if node_id (doc (ctx_spec ctx)) nd = []
                 then warn (ctx_spec ctx) (node_warning ''missing-id'' ''clause doesn't have an id'' nd)
                 else ctx_spec ctx);
          numbered = (if nodeName (nodes (doc sp1) nd) \<noteq> ''EMU-INTRO''
                      then numberer_next E (clauseNumberer ctx) sp1 (clauseStack ctx) nd
                      else ([], clauseNumberer ctx));
          parent = (if clauseStack ctx = [] then None else Some (last (clauseStack ctx)))
      in case Clause_new E sp1 nd parent (fst numbered) of
           Inl e \<Rightarrow> Inl e
         | Inr (c, sp2) \<Rightarrow>
             Inr (ctx\<lparr>ctx_spec :=
                        (case parent of
                           Some p \<Rightarrow> update_clause sp2 p (\<lambda>x. x\<lparr>subclauses := subclauses x @ [c]\<rparr>)
                         | None \<Rightarrow> sp2\<lparr>spec_subclauses := spec_subclauses sp2 @ [c]\<rparr>),
                      clauseStack := clauseStack ctx @ [c],
                      clauseNumberer := snd numbered\<rparr>))"


subsection \<open>exit\<close>

text \<open>\<open>JSON.stringify\<close> of a string: quoted, with the JSON escapes.\<close>

definition hex_digit :: "nat \<Rightarrow> char" where
  "hex_digit n = ''0123456789abcdef'' ! (n mod 16)"

definition json_escape :: "char \<Rightarrow> string" where
  "json_escape c =
     (let n = (of_char c :: nat)
      in if n = 34 then [char_of (92 :: nat), char_of (34 :: nat)]
         else if n = 92 then [char_of (92 :: nat), char_of (92 :: nat)]
         else if n = 8 then char_of (92 :: nat) # ''b''
         else if n = 12 then char_of (92 :: nat) # ''f''
         else if n = 10 then char_of (92 :: nat) # ''n''
         else if n = 13 then char_of (92 :: nat) # ''r''
         else if n = 9 then char_of (92 :: nat) # ''t''
         else if n < 32 then char_of (92 :: nat) # ''u00'' @ [hex_digit (n div 16), hex_digit n]
         else [c])"

definition JSON_stringify :: "string \<Rightarrow> string" where
  "JSON_stringify s = char_of (34 :: nat) # concat (map json_escape s) @ [char_of (34 :: nat)]"

text \<open>Lines 426 to 428: the display names of the special kinds the node carries.\<close>

definition special_attributes :: "document \<Rightarrow> nref \<Rightarrow> string option list" where
  "special_attributes d nd =
     map (map_of SPECIAL_KINDS_MAP) (filter (\<lambda>kind. hasAttribute d nd kind) SPECIAL_KINDS)"

text \<open>Lines 429 to 445: the label, and its text node registered for linking.\<close>

definition tag_attributes :: "cref \<Rightarrow> nref \<Rightarrow> bool \<Rightarrow> string option \<Rightarrow> spec \<Rightarrow> spec" where
  "tag_attributes c nd in_alg cur_id sp =
     (let attrs = special_attributes (doc sp) nd
      in if length attrs > 0 then
           (case createElement (doc sp) ''div'' of
              (tag, d1) \<Rightarrow>
                (let d2 = setAttribute d1 tag ''class'' ''attributes-tag'';
                     text = join attrs '', ''
                 in case createTextNode d2 text of
                      (contents, d3) \<Rightarrow>
                        (let d4 = append_node d3 tag contents;
                             d5 = prepend d4 nd tag;
                             ns = namespace (heap sp c)
                         in sp\<lparr>doc := d5,
                               textNodes := (textNodes sp)
                                 (ns := Some ((case textNodes sp ns of None \<Rightarrow> [] | Some l \<Rightarrow> l) @
                                    [\<lparr>tn_node = contents, tn_clause = c, tn_inAlg = in_alg,
                                      tn_currentId = cur_id\<rparr>]))\<rparr>)))
         else sp)"

text \<open>Lines 489 to 493: a union return type with a completion and a non-completion member.\<close>

definition mixed_completion_union :: "signature option \<Rightarrow> bool" where
  "mixed_completion_union sig =
     (case sig of
        None \<Rightarrow> False
      | Some sg \<Rightarrow>
          (case return sg of
             Some (Union ts) \<Rightarrow> list_ex is_completion ts \<and> list_ex (\<lambda>e. \<not> is_completion e) ts
           | _ \<Rightarrow> False))"

text \<open>Lines 467 to 488: the op entry built for a clause with the aoid \<open>a\<close>.\<close>

definition make_op :: "cref \<Rightarrow> clause \<Rightarrow> string \<Rightarrow> op_entry" where
  "make_op c cl a =
     (let sig = clause_signature cl;
          kind0 = (if clause_type cl \<noteq> None \<and> the (clause_type cl) \<in> set aoidTypes
                   then clause_type cl else None);
          kind = (if kind0 = Some ''sdo'' then Some ''syntax-directed operation'' else kind0)
      in \<lparr>op_aoid = a,
          op_refId = clause_id cl,
          op_kind = kind,
          op_signature = sig,
          op_effects = c,
          op_node = node cl,
          op_skipReturnChecks = skipReturnChecks cl,
          op_skipGlobalChecks = (if skipGlobalChecks cl then Some True else None)\<rparr>)"

text \<open>Lines 494 to 499.\<close>

definition completion_union_warning :: "nref option \<Rightarrow> warning" where
  "completion_union_warning hdr =
     \<lparr>w_type = ''node'', ruleId = ''completion-union'',
      message = ''algorithms should return either completions or things which are not completions, never both'',
      w_node = hdr, w_attr = None, nodeRelativeLine = None, nodeRelativeColumn = None\<rparr>"

text \<open>Lines 457 to 503: the duplicate check and the op entry of a clause with an aoid.\<close>

definition register_op :: "cref \<Rightarrow> nref \<Rightarrow> spec \<Rightarrow> spec" where
  "register_op c nd sp =
     (let cl = heap sp c
      in case aoid cl of
           None \<Rightarrow> sp
         | Some a \<Rightarrow>
             if a = [] then sp
             else if a \<in> keysForNamespace (spec_biblio sp) (spec_namespace sp) then
               warn sp (node_warning ''duplicate-definition''
                          (''duplicate definition '' @ JSON_stringify a) nd)
             else
               (let op = make_op c cl a;
                    sp1 = (if mixed_completion_union (clause_signature cl)
                           then warn sp (completion_union_warning (header cl))
                           else sp)
                in sp1\<lparr>spec_biblio := add (spec_biblio sp1) (OpEntry op) (spec_namespace sp1)\<rparr>))"

text \<open>Lines 448 to 455: the clause entry.\<close>

definition clause_entry_of :: "clause \<Rightarrow> clause_entry" where
  "clause_entry_of cl =
     \<lparr>ce_id = clause_id cl,
      ce_aoid = aoid cl,
      ce_title = title cl,
      ce_titleHTML = titleHTML cl,
      ce_number = number cl\<rparr>"

definition exit :: "'n Context \<Rightarrow> exn + 'n Context" where
  "exit ctx =
     (if clauseStack ctx = [] then Inl (TypeError ''clause is undefined'')
      else
        (let c = last (clauseStack ctx);
             nd = ctx_node ctx;
             sp0 = ctx_spec ctx;
             sp1 = sp0\<lparr>built := built sp0 @ buildExamples (heap sp0 c)\<rparr>;
             sp2 = sp1\<lparr>built := built sp1 @ buildNotes (heap sp1 c)\<rparr>;
             sp3 = tag_attributes c nd (inAlg ctx) (currentId ctx) sp2;
             entry = clause_entry_of (heap sp3 c);
             sp4 = register_op c nd sp3;
             sp5 = sp4\<lparr>spec_biblio := add (spec_biblio sp4) (ClauseEntry entry) (spec_namespace sp4)\<rparr>
         in Inr (ctx\<lparr>ctx_spec := sp5, clauseStack := butlast (clauseStack ctx)\<rparr>)))"


section \<open>The earlier constructor\<close>

text \<open>
  The first lines of the source hold an earlier \<open>Clause\<close>, which numbers the clause in
  its constructor. Its spec object keeps the clauses made so far, the clause of each
  node (\<open>node._clause\<close>), the root subclause list, the table \<open>biblio.ops\<close> and the state
  behind \<open>getNextClauseNumber\<close>. \<open>querySelector\<close>, \<open>textContent\<close> and
  \<open>getNextClauseNumber\<close> are collaborators. The walk up the parents in
  \<open>getParentClause\<close> ends on a tree; on a store of nodes it is a partial function.
\<close>

definition CLAUSE_ELEMS :: "string list" where
  "CLAUSE_ELEMS = [''EMU-INTRO'', ''EMU-CLAUSE'', ''EMU-ANNEX'']"

record legacy_clause =
  lc_header :: nref
  lc_node :: nref
  lc_parentClause :: "cref option"
  lc_title :: string
  lc_subclauses :: "cref list"
  lc_id :: string
  lc_depth :: nat
  lc_number :: "string assigned"

record 'm legacy_spec =
  ls_doc :: document
  ls_clause_of :: "nref \<Rightarrow> cref option"
  ls_heap :: "cref \<Rightarrow> legacy_clause"
  ls_nextClause :: cref
  ls_subclauses :: "cref list"
  ls_ops :: "string \<Rightarrow> string option"
  ls_numbering :: 'm

record 'm legacy_env =
  querySelector_h1 :: "document \<Rightarrow> nref \<Rightarrow> nref option"
  textContent :: "document \<Rightarrow> nref \<Rightarrow> string"
  getNextClauseNumber :: "'m \<Rightarrow> nat \<Rightarrow> bool \<Rightarrow> string \<times> 'm"

partial_function (option) parentClause_from ::
  "document \<Rightarrow> (nref \<Rightarrow> cref option) \<Rightarrow> nref option \<Rightarrow> cref option option" where
  "parentClause_from d clause_of current =
     (case current of
        None \<Rightarrow> Some None
      | Some n \<Rightarrow>
          if nodeName (nodes d n) \<in> set CLAUSE_ELEMS then Some (clause_of n)
          else parentClause_from d clause_of (parentNode (nodes d n)))"

definition getParentClause :: "document \<Rightarrow> (nref \<Rightarrow> cref option) \<Rightarrow> nref \<Rightarrow> cref option option" where
  "getParentClause d clause_of nd = parentClause_from d clause_of (parentNode (nodes d nd))"

text \<open>
  The walk ends when the chain of parents is finite: within \<open>k\<close> steps it reaches a
  clause element or runs out of parents. Every node of a tree has such a \<open>k\<close>.
\<close>

fun ancestors_end_within :: "nat \<Rightarrow> document \<Rightarrow> nref option \<Rightarrow> bool" where
  "ancestors_end_within k d None = True"
| "ancestors_end_within 0 d (Some n) = (nodeName (nodes d n) \<in> set CLAUSE_ELEMS)"
| "ancestors_end_within (Suc k) d (Some n) =
     (nodeName (nodes d n) \<in> set CLAUSE_ELEMS \<or>
      ancestors_end_within k d (parentNode (nodes d n)))"

text \<open>
  The error thrown for a missing header reads \<open>this.node\<close> before it is assigned, so
  what is thrown is a \<open>TypeError\<close>.
\<close>

definition Clause_legacy ::
  "'m legacy_env \<Rightarrow> 'm legacy_spec \<Rightarrow> nref \<Rightarrow> (exn + cref \<times> 'm legacy_spec) option" where
  "Clause_legacy E sp nd =
     (let this = ls_nextClause sp;
          sp0 = sp\<lparr>ls_clause_of := (ls_clause_of sp)(nd := Some this), ls_nextClause := Suc this\<rparr>
      in case querySelector_h1 E (ls_doc sp0) nd of
           None \<Rightarrow> Some (Inl (TypeError ''this.node is undefined''))
         | Some hdr \<Rightarrow>
             (case getParentClause (ls_doc sp0) (ls_clause_of sp0) nd of
                None \<Rightarrow> None
              | Some parent \<Rightarrow>
                  (let depth = (case parent of Some p \<Rightarrow> lc_depth (ls_heap sp0 p) + 1 | None \<Rightarrow> 0);
                       c0 = \<lparr>lc_header = hdr, lc_node = nd, lc_parentClause = parent,
                             lc_title = textContent E (ls_doc sp0) hdr, lc_subclauses = [],
                             lc_id = node_id (ls_doc sp0) nd, lc_depth = depth, lc_number = Unassigned\<rparr>;
                       sp1 = sp0\<lparr>ls_heap := (ls_heap sp0)(this := c0)\<rparr>;
                       sp2 = (case parent of
                                Some p \<Rightarrow> sp1\<lparr>ls_heap := (ls_heap sp1)
                                            (p := (ls_heap sp1 p)\<lparr>lc_subclauses := lc_subclauses (ls_heap sp1 p) @ [this]\<rparr>)\<rparr>
                              | None \<Rightarrow> sp1\<lparr>ls_subclauses := ls_subclauses sp1 @ [this]\<rparr>);
                       numbered = (if nodeName (nodes (ls_doc sp2) nd) = ''EMU-INTRO''
                                   then ([], ls_numbering sp2)
                                   else getNextClauseNumber E (ls_numbering sp2) depth
                                          (nodeName (nodes (ls_doc sp2) nd) = ''EMU-ANNEX''));
                       sp3 = sp2\<lparr>ls_heap := (ls_heap sp2)(this := (ls_heap sp2 this)\<lparr>lc_number := Assigned (fst numbered)\<rparr>),
                                 ls_numbering := snd numbered\<rparr>
                   in Some (Inr (this,
                        (case getAttribute (ls_doc sp3) nd ''aoid'' of
                           None \<Rightarrow> sp3
                         | Some a \<Rightarrow>
                             sp3\<lparr>ls_ops := (ls_ops sp3)
                                   ((if a = [] then lc_id (ls_heap sp3 this) else a) :=
                                      Some (''#'' @ lc_id (ls_heap sp3 this)))\<rparr>))))))"


section \<open>Sample inputs\<close>

text \<open>A one-clause document, used to instantiate the theorems below.\<close>

definition sample_element :: element where
  "sample_element =
     \<lparr>nodeType = 1, nodeName = ''EMU-CLAUSE'', attributes = [(''id'', ''sec-foo'')],
      childNodes = [], parentNode = None, textData = []\<rparr>"

definition sample_doc :: document where
  "sample_doc = \<lparr>nodes = (\<lambda>n. sample_element), nextNode = 5\<rparr>"

definition sample_clause :: clause where
  "sample_clause =
     \<lparr>node = 0, parentClause = None, clause_id = Some ''sec-foo'', namespace = ''root'',
      header = None, title = Assigned (Some ''Foo''), titleHTML = Assigned ''Foo'',
      subclauses = [], number = ''1'', aoid = None, clause_type = None,
      clause_notes = [], editorNotes = [], examples = [], effects = [],
      clause_signature = None, skipGlobalChecks = False, skipReturnChecks = False,
      isAnnex = False, isBackMatter = False, isNormative = True\<rparr>"

definition sample_spec :: spec where
  "sample_spec =
     \<lparr>doc = sample_doc, heap = (\<lambda>c. sample_clause), nextClause = 1,
      spec_namespace = ''root'',
      spec_biblio = \<lparr>namespaces = [], entries = (\<lambda>ns. [])\<rparr>,
      warnings = [], effectWorklist = [], textNodes = (\<lambda>ns. None),
      spec_subclauses = [0], built = []\<rparr>"

definition sample_ctx :: "unit Context" where
  "sample_ctx =
     \<lparr>ctx_spec = sample_spec, ctx_node = 0, clauseStack = [0], clauseNumberer = (),
      inAlg = False, currentId = None\<rparr>"


definition notes_ctx :: "unit Context" where
  "notes_ctx =
     sample_ctx\<lparr>ctx_spec := sample_spec\<lparr>heap := (\<lambda>c. sample_clause
        \<lparr>clause_notes := [10, 11], editorNotes := [30], examples := [20]\<rparr>)\<rparr>\<rparr>"

definition kinds_ctx :: "unit Context" where
  "kinds_ctx =
     sample_ctx\<lparr>ctx_spec := sample_spec\<lparr>doc := sample_doc\<lparr>nodes := (\<lambda>n. sample_element
        \<lparr>attributes := [(''deprecated'', []), (''id'', ''sec-foo''), (''normative-optional'', [])]\<rparr>)\<rparr>\<rparr>\<rparr>"


definition cex1_ctx :: "unit Context" where
  "cex1_ctx =
     sample_ctx\<lparr>ctx_spec := sample_spec
       \<lparr>heap := (\<lambda>c. sample_clause\<lparr>namespace := ''ns1'', aoid := Some ''Foo''\<rparr>),
        spec_biblio := \<lparr>namespaces = [(''ns1'', ''root'')], entries = (\<lambda>ns. [])\<rparr>\<rparr>\<rparr>"

definition dup_ctx :: "unit Context" where
  "dup_ctx =
     sample_ctx\<lparr>ctx_spec := sample_spec
       \<lparr>heap := (\<lambda>c. sample_clause\<lparr>namespace := ''ns1'', aoid := Some ''Foo''\<rparr>),
        spec_biblio := \<lparr>namespaces = [(''ns1'', ''root'')],
                        entries = (\<lambda>ns. if ns = ''root''
                                        then [OpEntry (make_op 7 sample_clause ''Foo'')] else [])\<rparr>\<rparr>\<rparr>"

definition union_signature :: signature where
  "union_signature =
     \<lparr>parameters = [], optionalParameters = [],
      return = Some (Union [Completion (Some (Named ''Number'')), Named ''Number''])\<rparr>"

definition union_ctx :: "unit Context" where
  "union_ctx =
     sample_ctx\<lparr>ctx_spec := sample_spec
       \<lparr>heap := (\<lambda>c. sample_clause\<lparr>aoid := Some ''Foo'', clause_type := Some ''abstract operation'',
                                     clause_signature := Some union_signature\<rparr>)\<rparr>\<rparr>"

definition cex6_ctx :: "unit Context" where
  "cex6_ctx =
     sample_ctx\<lparr>ctx_spec := sample_spec
       \<lparr>heap := (\<lambda>c. sample_clause\<lparr>clause_type := Some ''concrete method'',
                                     clause_signature := Some union_signature\<rparr>)\<rparr>\<rparr>"

definition twice_ctx :: "unit Context" where
  "twice_ctx =
     sample_ctx\<lparr>clauseStack := [2, 0],
       ctx_spec := sample_spec
         \<lparr>heap := (\<lambda>c. if c = 0
                       then sample_clause\<lparr>aoid := Some ''Foo'', parentClause := Some 2\<rparr>
                       else sample_clause\<lparr>aoid := Some ''Foo'', clause_id := Some ''sec-bar'', node := 2\<rparr>)\<rparr>\<rparr>"


text \<open>Collaborators for the sample inputs: a header grammar that parses only \<open>Foo ( )\<close>.\<close>

definition sample_env :: "nat env" where
  "sample_env =
     \<lparr>Builder_init = (\<lambda>sp nd. sp),
      parseH1 = (\<lambda>s. if s = ''Foo ( )''
                      then Parsed \<lparr>ph_name = ''Foo'', params = [], optionalParams = [],
                                   returnType = None, returnOffset = 0\<rparr>
                      else Failure ''unexpected token''),
      TypeParser_parse = (\<lambda>s. Inr (Named s)),
      header_formatter = (\<lambda>d h pr. case pr of
          Parsed ph \<Rightarrow> ([], \<lparr>name = Some (ph_name ph), formattedHeader = Some (ph_name ph @ '' ( )''),
                             formattedParams = Some [], formattedReturnType = None\<rparr>)
        | Failure m \<Rightarrow> ([], \<lparr>name = None, formattedHeader = None, formattedParams = None,
                             formattedReturnType = None\<rparr>)),
      parseStructuredHeaderDl = (\<lambda>d ty dl.
          ([], \<lparr>description = None, dl_for = None, dl_effects = [], redefinition = False,
                dl_skipGlobalChecks = False, dl_skipReturnChecks = False\<rparr>)),
      formatPreamble = (\<lambda>d nd dl ty nm ps rt fr ds.
          ([], [nextNode d], snd (createTextNode d (nm @ '' takes '' @ ps)))),
      locate = (\<lambda>d n. None),
      offsetToLineAndColumn = (\<lambda>s off. (1, off + 1)),
      get_innerHTML = (\<lambda>d n. textData (nodes d n)),
      set_innerHTML = (\<lambda>d n s. d\<lparr>nodes := (nodes d)(n := (nodes d n)\<lparr>textData := s\<rparr>)\<rparr>),
      numberer_next = (\<lambda>n sp st nd. (''1'', Suc n))\<rparr>"

definition header_doc :: "string \<Rightarrow> string \<Rightarrow> document" where
  "header_doc tag h1 =
     \<lparr>nodes = (\<lambda>n.
        if n = 10 then \<lparr>nodeType = 1, nodeName = tag, attributes = [(''id'', ''sec-foo'')],
                        childNodes = [11, 12], parentNode = None, textData = []\<rparr>
        else if n = 11 then \<lparr>nodeType = 1, nodeName = ''H1'', attributes = [],
                        childNodes = [], parentNode = Some 10, textData = h1\<rparr>
        else \<lparr>nodeType = 1, nodeName = ''DL'', attributes = [(''class'', ''header'')],
                        childNodes = [], parentNode = Some 10, textData = []\<rparr>),
      nextNode = 20\<rparr>"

definition header_spec :: "string \<Rightarrow> spec" where
  "header_spec h1 =
     sample_spec\<lparr>doc := header_doc ''EMU-CLAUSE'' h1,
       heap := (\<lambda>c. sample_clause\<lparr>node := 10, clause_type := Some ''abstract operation''\<rparr>)\<rparr>"

definition intro_doc :: document where
  "intro_doc =
     \<lparr>nodes = (\<lambda>n.
        if n = 9 then \<lparr>nodeType = 1, nodeName = ''BODY'', attributes = [],
                        childNodes = [10], parentNode = None, textData = []\<rparr>
        else if n = 10 then \<lparr>nodeType = 1, nodeName = ''EMU-INTRO'', attributes = [(''id'', ''sec-intro'')],
                        childNodes = [11], parentNode = Some 9, textData = []\<rparr>
        else \<lparr>nodeType = 1, nodeName = ''H1'', attributes = [],
                        childNodes = [], parentNode = Some 10, textData = ''Introduction''\<rparr>),
      nextNode = 20\<rparr>"

definition intro_ctx :: "nat Context" where
  "intro_ctx =
     \<lparr>ctx_spec = sample_spec\<lparr>doc := intro_doc, spec_subclauses := []\<rparr>, ctx_node = 10,
      clauseStack = [], clauseNumberer = 3, inAlg = False, currentId = None\<rparr>"


definition legacy_sample_env :: "nat legacy_env" where
  "legacy_sample_env =
     \<lparr>querySelector_h1 = (\<lambda>d n. firstElementChild d n),
      textContent = (\<lambda>d n. textData (nodes d n)),
      getNextClauseNumber = (\<lambda>m depth annex. (''1'', Suc m))\<rparr>"

definition legacy_intro_spec :: "nat legacy_spec" where
  "legacy_intro_spec =
     \<lparr>ls_doc = intro_doc, ls_clause_of = (\<lambda>n. None),
      ls_heap = (\<lambda>c. \<lparr>lc_header = 0, lc_node = 0, lc_parentClause = None, lc_title = [],
                       lc_subclauses = [], lc_id = [], lc_depth = 0, lc_number = Unassigned\<rparr>),
      ls_nextClause = 4, ls_subclauses = [], ls_ops = (\<lambda>a. None), ls_numbering = 3\<rparr>"


definition earlier_clause :: clause where
  "earlier_clause = sample_clause\<lparr>namespace := ''ns2'', aoid := Some ''Foo'', clause_id := Some ''sec-earlier''\<rparr>"

definition cex2_ctx :: "unit Context" where
  "cex2_ctx =
     sample_ctx\<lparr>clauseStack := [2, 0],
       ctx_spec := sample_spec
         \<lparr>heap := (\<lambda>c. if c = 0
                       then sample_clause\<lparr>namespace := ''ns1'', aoid := Some ''Foo''\<rparr>
                       else sample_clause\<lparr>namespace := ''ns1'', aoid := Some ''Foo'',
                                          clause_id := Some ''sec-bar'', node := 2\<rparr>),
          spec_biblio := \<lparr>namespaces = [(''ns1'', ''root''), (''ns2'', ''root'')],
                          entries = (\<lambda>ns. if ns = ''root''
                                          then [OpEntry (make_op 7 earlier_clause ''Foo''),
                                                ClauseEntry (clause_entry_of earlier_clause)]
                                          else [])\<rparr>\<rparr>\<rparr>"

definition empty_aoid_ctx :: "unit Context" where
  "empty_aoid_ctx =
     sample_ctx\<lparr>clauseStack := [2, 0],
       ctx_spec := sample_spec
         \<lparr>heap := (\<lambda>c. if c = 0
                       then sample_clause\<lparr>aoid := Some [], clause_id := None\<rparr>
                       else sample_clause\<lparr>aoid := Some [], clause_id := None, node := 2\<rparr>)\<rparr>\<rparr>"

definition aoid_header_doc :: document where
  "aoid_header_doc = setAttribute (header_doc ''EMU-CLAUSE'' ''Foo ( )'') 10 ''aoid'' ''Bar''"

definition aoid_header_spec :: spec where
  "aoid_header_spec =
     sample_spec\<lparr>doc := aoid_header_doc,
       heap := (\<lambda>c. sample_clause\<lparr>node := 10, clause_type := Some ''abstract operation'',
                                     aoid := Some ''Bar''\<rparr>)\<rparr>"


section \<open>Properties\<close>

text \<open>
  C7. \<open>canHaveEffect("user-code")\<close> is false for a clause whose title begins with
  "Static Semantics:" and true for a clause with any other title, a null title included.
\<close>

theorem canHaveEffect_user_code:
  "title c = Assigned t \<Longrightarrow>
   canHaveEffect c ''user-code'' =
     Inr (\<not> (case t of None \<Rightarrow> False | Some s \<Rightarrow> startsWith s ''Static Semantics:''))"
  by (simp add: canHaveEffect_def split: option.splits)

theorem canHaveEffect_user_code_witness:
  "title (sample_clause\<lparr>title := Assigned (Some ''Static Semantics: Foo'')\<rparr>) =
     Assigned (Some ''Static Semantics: Foo'') \<and>
   canHaveEffect (sample_clause\<lparr>title := Assigned (Some ''Static Semantics: Foo'')\<rparr>) ''user-code'' = Inr False \<and>
   canHaveEffect (sample_clause\<lparr>title := Assigned (Some ''Runtime Semantics: Foo'')\<rparr>) ''user-code'' = Inr True \<and>
   canHaveEffect (sample_clause\<lparr>title := Assigned None\<rparr>) ''user-code'' = Inr True"
  using canHaveEffect_user_code [of "sample_clause\<lparr>title := Assigned (Some ''Static Semantics: Foo'')\<rparr>" "Some ''Static Semantics: Foo''"]
    canHaveEffect_user_code [of "sample_clause\<lparr>title := Assigned (Some ''Runtime Semantics: Foo'')\<rparr>" "Some ''Runtime Semantics: Foo''"]
    canHaveEffect_user_code [of "sample_clause\<lparr>title := Assigned None\<rparr>" None]
  by (simp add: startsWith_def)

subsection \<open>What exit leaves alone\<close>

lemma tag_attributes_built: "built (tag_attributes c nd a i sp) = built sp"
  by (simp add: tag_attributes_def Let_def split: prod.splits)

lemma tag_attributes_heap: "heap (tag_attributes c nd a i sp) = heap sp"
  by (simp add: tag_attributes_def Let_def split: prod.splits)

lemma register_op_built: "built (register_op c nd sp) = built sp"
  by (simp add: register_op_def Let_def warn_def split: option.splits)

subsection \<open>Notes and examples\<close>

lemma build_each_length: "length (build_each mk xs k) = length xs"
  by (induction xs arbitrary: k) simp_all

lemma build_each_nth:
  "i < length xs \<Longrightarrow> build_each mk xs k ! i = mk (xs ! i) (Some (k + i + 1))"
proof (induction xs arbitrary: k i)
  case Nil
  then show ?case by simp
next
  case (Cons x xs)
  then show ?case by (cases i) simp_all
qed

lemma build_each_map:
  "build_each mk xs 0 = map (\<lambda>i. mk (xs ! i) (Some (i + 1))) [0..<length xs]"
  by (rule nth_equalityI) (simp_all add: build_each_length build_each_nth)

lemma buildExamples_map:
  "buildExamples c =
     map (\<lambda>i. ExampleBuild (examples c ! i) (if length (examples c) = 1 then None else Some (i + 1)))
       [0..<length (examples c)]"
  by (simp add: buildExamples_def build_each_map)

lemma buildNotes_map:
  "buildNotes c =
     map (\<lambda>i. NoteBuild (clause_notes c ! i) (if length (clause_notes c) = 1 then None else Some (i + 1)))
       [0..<length (clause_notes c)]
     @ map (\<lambda>n. NoteBuild n None) (editorNotes c)"
  by (simp add: buildNotes_def build_each_map)

text \<open>
  C9. At exit the clause's examples are built first, then its notes, then its editor
  notes, each list in declaration order. The note at index \<open>i\<close> is built with the
  label \<open>i + 1\<close>, or with no label when it is the clause's only note; editor notes are
  built with no label; the examples follow the rule of the notes, from their own count.
\<close>

theorem exit_note_labels:
  assumes "clauseStack ctx \<noteq> []"
  shows "\<exists>ctx'. exit ctx = Inr ctx' \<and>
     (let c = heap (ctx_spec ctx) (last (clauseStack ctx))
      in built (ctx_spec ctx') =
           built (ctx_spec ctx)
           @ map (\<lambda>i. ExampleBuild (examples c ! i)
                        (if length (examples c) = 1 then None else Some (i + 1)))
               [0..<length (examples c)]
           @ map (\<lambda>i. NoteBuild (clause_notes c ! i)
                        (if length (clause_notes c) = 1 then None else Some (i + 1)))
               [0..<length (clause_notes c)]
           @ map (\<lambda>n. NoteBuild n None) (editorNotes c))"
  using assms
  by (simp add: exit_def Let_def register_op_built tag_attributes_built
        buildExamples_map buildNotes_map del: upt_Suc)

theorem exit_note_labels_witness:
  "clauseStack notes_ctx \<noteq> [] \<and>
   built (ctx_spec (projr (exit notes_ctx))) =
     [ExampleBuild 20 None, NoteBuild 10 (Some 1), NoteBuild 11 (Some 2), NoteBuild 30 None]"
proof -
  have h: "clauseStack notes_ctx \<noteq> []"
    by (simp add: notes_ctx_def sample_ctx_def)
  from exit_note_labels [OF h] obtain ctx' where
    e: "exit notes_ctx = Inr ctx'" and
    b: "built (ctx_spec ctx') =
          [ExampleBuild 20 None, NoteBuild 10 (Some 1), NoteBuild 11 (Some 2), NoteBuild 30 None]"
    by (auto simp add: notes_ctx_def sample_ctx_def sample_spec_def sample_clause_def Let_def upt_rec)
  from h e b show ?thesis by simp
qed

subsection \<open>The special-kind label\<close>

lemma special_attributes_eq:
  "special_attributes d nd =
     (if ''normative-optional'' \<in> fst ` set (attributes (nodes d nd)) then [Some ''Normative Optional''] else []) @
     (if ''legacy'' \<in> fst ` set (attributes (nodes d nd)) then [Some ''Legacy''] else []) @
     (if ''deprecated'' \<in> fst ` set (attributes (nodes d nd)) then [Some ''Deprecated''] else [])"
  by (simp add: special_attributes_def SPECIAL_KINDS_def SPECIAL_KINDS_MAP_def hasAttribute_def
        map_of_eq_None_iff)

lemma register_op_doc: "doc (register_op c nd sp) = doc sp"
  by (simp add: register_op_def Let_def warn_def split: option.splits)

lemma toUpperCase_div: "toUpperCase ''div'' = ''DIV''"
  by code_simp

lemma tag_attributes_doc_none:
  "special_attributes (doc sp) nd = [] \<Longrightarrow> tag_attributes c nd a i sp = sp"
  by (simp add: tag_attributes_def)

lemma tag_attributes_doc_some:
  assumes "special_attributes (doc sp) nd \<noteq> []" and "nd < nextNode (doc sp)"
  shows "childNodes (nodes (doc (tag_attributes c nd a i sp)) nd) = nextNode (doc sp) # childNodes (nodes (doc sp) nd)"
    and "nodeName (nodes (doc (tag_attributes c nd a i sp)) (nextNode (doc sp))) = ''DIV''"
    and "getAttribute (doc (tag_attributes c nd a i sp)) (nextNode (doc sp)) ''class'' = Some ''attributes-tag''"
    and "childNodes (nodes (doc (tag_attributes c nd a i sp)) (nextNode (doc sp))) = [Suc (nextNode (doc sp))]"
    and "nodeType (nodes (doc (tag_attributes c nd a i sp)) (Suc (nextNode (doc sp)))) = 3"
    and "textData (nodes (doc (tag_attributes c nd a i sp)) (Suc (nextNode (doc sp)))) = join (special_attributes (doc sp) nd) '', ''"
  using assms
  by (simp_all add: tag_attributes_def Let_def createElement_def createTextNode_def setAttribute_def
        append_node_def prepend_def detach_def getAttribute_def toUpperCase_div)


lemma tag_attributes_warnings: "warnings (tag_attributes c nd a i sp) = warnings sp"
  by (simp add: tag_attributes_def Let_def split: prod.splits)

lemma tag_attributes_biblio: "spec_biblio (tag_attributes c nd a i sp) = spec_biblio sp"
  by (simp add: tag_attributes_def Let_def split: prod.splits)

lemma tag_attributes_namespace: "spec_namespace (tag_attributes c nd a i sp) = spec_namespace sp"
  by (simp add: tag_attributes_def Let_def split: prod.splits)

text \<open>
  C10. The label prepended at exit lists the display names of the special kinds present
  on the node in the fixed order Normative Optional, Legacy, Deprecated, joined by a
  comma and a space; which names it lists depends only on the set of attribute names of
  the node, not on their order. It is the text of a new text node, the only child of a
  new \<open>div\<close> of class \<open>attributes-tag\<close> that becomes the node's first child. A node
  with none of the three attributes leaves the document as it is.
\<close>

theorem exit_special_kind_label:
  assumes "clauseStack ctx \<noteq> []" and "ctx_node ctx < nextNode (doc (ctx_spec ctx))"
  shows "\<exists>ctx'. exit ctx = Inr ctx' \<and>
     (let d = doc (ctx_spec ctx); d' = doc (ctx_spec ctx'); nd = ctx_node ctx; tag = nextNode d;
          present = (\<lambda>k. k \<in> fst ` set (attributes (nodes d nd)));
          names = (if present ''normative-optional'' then [''Normative Optional''] else []) @
                  (if present ''legacy'' then [''Legacy''] else []) @
                  (if present ''deprecated'' then [''Deprecated''] else [])
      in if names = [] then d' = d
         else childNodes (nodes d' nd) = tag # childNodes (nodes d nd) \<and>
              nodeName (nodes d' tag) = ''DIV'' \<and>
              getAttribute d' tag ''class'' = Some ''attributes-tag'' \<and>
              childNodes (nodes d' tag) = [Suc tag] \<and>
              nodeType (nodes d' (Suc tag)) = 3 \<and>
              textData (nodes d' (Suc tag)) = join (map Some names) '', '')"
proof -
  let ?sp = "ctx_spec ctx"
  let ?c = "last (clauseStack ctx)"
  let ?sp2 = "?sp\<lparr>built := built ?sp @ buildExamples (heap ?sp ?c) @ buildNotes (heap ?sp ?c)\<rparr>"
  let ?sp3 = "tag_attributes ?c (ctx_node ctx) (inAlg ctx) (currentId ctx) ?sp2"
  have d2: "doc ?sp2 = doc ?sp" by simp
  from assms(1) obtain ctx' where e: "exit ctx = Inr ctx'" and d': "doc (ctx_spec ctx') = doc ?sp3"
    by (simp add: exit_def Let_def register_op_doc)
  show ?thesis
  proof (cases "special_attributes (doc ?sp) (ctx_node ctx) = []")
    case True
    then have "?sp3 = ?sp2" by (simp add: tag_attributes_doc_none)
    with True e d' show ?thesis
      by (simp add: Let_def special_attributes_eq split: if_splits)
  next
    case False
    then have ne: "special_attributes (doc ?sp2) (ctx_node ctx) \<noteq> []" by simp
    from assms(2) have lt: "ctx_node ctx < nextNode (doc ?sp2)" by simp
    note facts = tag_attributes_doc_some [OF ne lt, of ?c "inAlg ctx" "currentId ctx", unfolded d2]
    from False e d' facts show ?thesis
      by (simp add: Let_def special_attributes_eq split: if_splits)
  qed
qed


theorem exit_special_kind_label_witness:
  "clauseStack kinds_ctx \<noteq> [] \<and> ctx_node kinds_ctx < nextNode (doc (ctx_spec kinds_ctx)) \<and>
   childNodes (nodes (doc (ctx_spec (projr (exit kinds_ctx)))) 0) = [5] \<and>
   childNodes (nodes (doc (ctx_spec (projr (exit kinds_ctx)))) 5) = [6] \<and>
   textData (nodes (doc (ctx_spec (projr (exit kinds_ctx)))) 6) = ''Normative Optional, Deprecated''"
proof -
  have h1: "clauseStack kinds_ctx \<noteq> []"
    by (simp add: kinds_ctx_def sample_ctx_def)
  have h2: "ctx_node kinds_ctx < nextNode (doc (ctx_spec kinds_ctx))"
    by (simp add: kinds_ctx_def sample_ctx_def sample_spec_def sample_doc_def)
  from exit_special_kind_label [OF h1 h2] obtain ctx' where
    e: "exit kinds_ctx = Inr ctx'" and
    b: "childNodes (nodes (doc (ctx_spec ctx')) 0) = [5] \<and>
        childNodes (nodes (doc (ctx_spec ctx')) 5) = [6] \<and>
        textData (nodes (doc (ctx_spec ctx')) 6) = ''Normative Optional, Deprecated''"
    by (auto simp add: kinds_ctx_def sample_ctx_def sample_spec_def sample_doc_def
          sample_element_def Let_def)
  from h1 h2 e b show ?thesis by simp
qed

subsection \<open>The bibliography entries of exit\<close>

lemma register_op_heap: "heap (register_op c nd sp) = heap sp"
  by (simp add: register_op_def Let_def warn_def split: option.splits)

lemma register_op_namespace: "spec_namespace (register_op c nd sp) = spec_namespace sp"
  by (simp add: register_op_def Let_def warn_def split: option.splits)

lemma register_op_none: "aoid (heap sp c) = None \<Longrightarrow> register_op c nd sp = sp"
  by (simp add: register_op_def)

lemma register_op_dup:
  "aoid (heap sp c) = Some a \<Longrightarrow> a \<noteq> [] \<Longrightarrow>
   a \<in> keysForNamespace (spec_biblio sp) (spec_namespace sp) \<Longrightarrow>
   register_op c nd sp =
     warn sp (node_warning ''duplicate-definition'' (''duplicate definition '' @ JSON_stringify a) nd)"
  by (simp add: register_op_def)

lemma register_op_fresh_biblio:
  "aoid (heap sp c) = Some a \<Longrightarrow> a \<noteq> [] \<Longrightarrow>
   a \<notin> keysForNamespace (spec_biblio sp) (spec_namespace sp) \<Longrightarrow>
   spec_biblio (register_op c nd sp) =
     add (spec_biblio sp) (OpEntry (make_op c (heap sp c) a)) (spec_namespace sp)"
  by (simp add: register_op_def Let_def warn_def)

lemma register_op_fresh_warnings:
  "aoid (heap sp c) = Some a \<Longrightarrow> a \<noteq> [] \<Longrightarrow>
   a \<notin> keysForNamespace (spec_biblio sp) (spec_namespace sp) \<Longrightarrow>
   warnings (register_op c nd sp) =
     warnings sp @
     (if mixed_completion_union (clause_signature (heap sp c))
      then [completion_union_warning (header (heap sp c))]
      else [])"
  by (simp add: register_op_def Let_def warn_def)

lemma make_op_fields:
  "op_aoid (make_op c cl a) = a" "op_refId (make_op c cl a) = clause_id cl"
  "op_signature (make_op c cl a) = clause_signature cl"
  by (simp_all add: make_op_def Let_def)

lemma register_op_frame:
  assumes "heap sp' = heap sp" and "spec_biblio sp' = spec_biblio sp"
    and "spec_namespace sp' = spec_namespace sp" and "warnings sp' = warnings sp"
  shows "warnings (register_op c nd sp') = warnings (register_op c nd sp)"
    and "spec_biblio (register_op c nd sp') = spec_biblio (register_op c nd sp)"
  using assms by (simp_all add: register_op_def Let_def warn_def split: option.splits)

lemma exit_result:
  assumes "clauseStack ctx \<noteq> []"
  shows "\<exists>ctx'. exit ctx = Inr ctx' \<and>
     clauseStack ctx' = butlast (clauseStack ctx) \<and>
     spec_namespace (ctx_spec ctx') = spec_namespace (ctx_spec ctx) \<and>
     heap (ctx_spec ctx') = heap (ctx_spec ctx) \<and>
     warnings (ctx_spec ctx') =
       warnings (register_op (last (clauseStack ctx)) (ctx_node ctx) (ctx_spec ctx)) \<and>
     spec_biblio (ctx_spec ctx') =
       add (spec_biblio (register_op (last (clauseStack ctx)) (ctx_node ctx) (ctx_spec ctx)))
         (ClauseEntry (clause_entry_of (heap (ctx_spec ctx) (last (clauseStack ctx)))))
         (spec_namespace (ctx_spec ctx))"
proof -
  let ?sp = "ctx_spec ctx"
  let ?c = "last (clauseStack ctx)"
  let ?sp2 = "?sp\<lparr>built := built ?sp @ buildExamples (heap ?sp ?c) @ buildNotes (heap ?sp ?c)\<rparr>"
  let ?sp3 = "tag_attributes ?c (ctx_node ctx) (inAlg ctx) (currentId ctx) ?sp2"
  have f: "heap ?sp3 = heap ?sp" "spec_biblio ?sp3 = spec_biblio ?sp"
    "spec_namespace ?sp3 = spec_namespace ?sp" "warnings ?sp3 = warnings ?sp"
    by (simp_all add: tag_attributes_heap tag_attributes_biblio tag_attributes_namespace
          tag_attributes_warnings)
  note r = register_op_frame [OF f, of ?c "ctx_node ctx"]
  from assms show ?thesis
    by (simp add: exit_def Let_def register_op_namespace register_op_heap r f)
qed

text \<open>
  C1, as amended. For every clause that has a non-empty aoid at exit time, the duplicate
  check and the op entry are performed in the spec-level namespace (\<open>spec.namespace\<close>),
  whatever the clause's own namespace is: the aoid is looked up among the keys of the
  spec-level namespace, the op entry (or else the duplicate-definition diagnostic) and
  the clause entry go to that namespace, and the entries of every other namespace are
  left as they were.
\<close>

theorem exit_op_in_spec_namespace:
  assumes "clauseStack ctx \<noteq> []"
    and "aoid (heap (ctx_spec ctx) (last (clauseStack ctx))) = Some a" and "a \<noteq> []"
  shows "\<exists>ctx'. exit ctx = Inr ctx' \<and>
     (let sp = ctx_spec ctx; sp' = ctx_spec ctx'; root = spec_namespace sp
      in spec_namespace sp' = root \<and>
         (\<forall>ns. ns \<noteq> root \<longrightarrow> entries (spec_biblio sp') ns = entries (spec_biblio sp) ns) \<and>
         (if a \<in> keysForNamespace (spec_biblio sp) root
          then (\<exists>e. entries (spec_biblio sp') root = entries (spec_biblio sp) root @ [ClauseEntry e]) \<and>
               warnings sp' = warnings sp @
                 [node_warning ''duplicate-definition'' (''duplicate definition '' @ JSON_stringify a)
                    (ctx_node ctx)]
          else (\<exists>op e. entries (spec_biblio sp') root =
                         entries (spec_biblio sp) root @ [OpEntry op, ClauseEntry e] \<and>
                       op_aoid op = a) \<and>
               (\<exists>ws. warnings sp' = warnings sp @ ws \<and>
                     ''duplicate-definition'' \<notin> ruleId ` set ws)))"
proof -
  let ?sp = "ctx_spec ctx"
  let ?c = "last (clauseStack ctx)"
  let ?sp4 = "register_op ?c (ctx_node ctx) ?sp"
  from exit_result [OF assms(1)] obtain ctx' where e: "exit ctx = Inr ctx'"
    and ns': "spec_namespace (ctx_spec ctx') = spec_namespace ?sp"
    and w': "warnings (ctx_spec ctx') = warnings ?sp4"
    and bib: "spec_biblio (ctx_spec ctx') =
        add (spec_biblio ?sp4) (ClauseEntry (clause_entry_of (heap ?sp ?c))) (spec_namespace ?sp)"
    by blast
  show ?thesis
  proof (cases "a \<in> keysForNamespace (spec_biblio ?sp) (spec_namespace ?sp)")
    case True
    from register_op_dup [OF assms(2) assms(3) True, of "ctx_node ctx"]
    have r: "?sp4 = warn ?sp (node_warning ''duplicate-definition''
                (''duplicate definition '' @ JSON_stringify a) (ctx_node ctx))" .
    from True e ns' w' bib show ?thesis
      by (simp add: r Let_def warn_def add_def)
  next
    case False
    note o = register_op_fresh_biblio [OF assms(2) assms(3) False, of "ctx_node ctx"]
    note ws = register_op_fresh_warnings [OF assms(2) assms(3) False, of "ctx_node ctx"]
    have w: "\<exists>ws. warnings (ctx_spec ctx') = warnings ?sp @ ws \<and>
            ''duplicate-definition'' \<notin> ruleId ` set ws"
      using w' ws by (auto simp add: completion_union_warning_def)
    have "entries (spec_biblio (ctx_spec ctx')) (spec_namespace ?sp) =
            entries (spec_biblio ?sp) (spec_namespace ?sp) @
              [OpEntry (make_op ?c (heap ?sp ?c) a), ClauseEntry (clause_entry_of (heap ?sp ?c))] \<and>
          op_aoid (make_op ?c (heap ?sp ?c) a) = a"
      by (simp add: bib o add_def make_op_fields)
    then have en: "\<exists>op e. entries (spec_biblio (ctx_spec ctx')) (spec_namespace ?sp) =
            entries (spec_biblio ?sp) (spec_namespace ?sp) @ [OpEntry op, ClauseEntry e] \<and>
          op_aoid op = a"
      by blast
    have oth: "\<forall>ns. ns \<noteq> spec_namespace ?sp \<longrightarrow>
        entries (spec_biblio (ctx_spec ctx')) ns = entries (spec_biblio ?sp) ns"
      by (simp add: bib o add_def)
    from False e ns' w en oth show ?thesis
      by (simp add: Let_def)
  qed
qed

theorem exit_op_in_spec_namespace_witness:
  "clauseStack dup_ctx \<noteq> [] \<and>
   aoid (heap (ctx_spec dup_ctx) (last (clauseStack dup_ctx))) = Some ''Foo'' \<and> ''Foo'' \<noteq> [] \<and>
   namespace (heap (ctx_spec dup_ctx) (last (clauseStack dup_ctx))) = ''ns1'' \<and>
   spec_namespace (ctx_spec (projr (exit dup_ctx))) = ''root'' \<and>
   entries (spec_biblio (ctx_spec (projr (exit dup_ctx)))) ''ns1'' = [] \<and>
   map ruleId (warnings (ctx_spec (projr (exit dup_ctx)))) = [''duplicate-definition'']"
proof -
  have st: "clauseStack dup_ctx \<noteq> []" "last (clauseStack dup_ctx) = 0"
    by (simp_all add: dup_ctx_def sample_ctx_def)
  have sp: "spec_namespace (ctx_spec dup_ctx) = ''root''" "warnings (ctx_spec dup_ctx) = []"
    "entries (spec_biblio (ctx_spec dup_ctx)) ''root'' = [OpEntry (make_op 7 sample_clause ''Foo'')]"
    "entries (spec_biblio (ctx_spec dup_ctx)) ''ns1'' = []"
    by (simp_all add: dup_ctx_def sample_ctx_def sample_spec_def)
  have cl: "aoid (heap (ctx_spec dup_ctx) (last (clauseStack dup_ctx))) = Some ''Foo''"
    "namespace (heap (ctx_spec dup_ctx) (last (clauseStack dup_ctx))) = ''ns1''"
    by (simp_all add: dup_ctx_def sample_ctx_def sample_spec_def sample_clause_def)
  have ne: "''Foo'' \<noteq> []" by simp
  have dup: "''Foo'' \<in> keysForNamespace (spec_biblio (ctx_spec dup_ctx)) ''root''"
    by (simp add: keysForNamespace_def sp make_op_fields)
  from exit_op_in_spec_namespace [OF st(1) cl(1) ne] obtain ctx' where
    e: "exit dup_ctx = Inr ctx'" and
    r: "spec_namespace (ctx_spec ctx') = ''root''"
       "entries (spec_biblio (ctx_spec ctx')) ''ns1'' = []"
       "map ruleId (warnings (ctx_spec ctx')) = [''duplicate-definition'']"
    by (auto simp add: Let_def sp dup node_warning_def)
  from st(1) cl ne e r show ?thesis by simp
qed

text \<open>
  C1 as stated fails: a clause in the namespace \<open>ns1\<close>, in a spec whose spec-level
  namespace is \<open>root\<close>, exits with its op entry in \<open>root\<close> and nothing in \<open>ns1\<close>.
\<close>

theorem exit_own_namespace_counterexample:
  "namespace (heap (ctx_spec cex1_ctx) (last (clauseStack cex1_ctx))) = ''ns1'' \<and>
   aoid (heap (ctx_spec cex1_ctx) (last (clauseStack cex1_ctx))) = Some ''Foo'' \<and>
   spec_namespace (ctx_spec cex1_ctx) = ''root'' \<and>
   \<not> isl (exit cex1_ctx) \<and>
   entries (spec_biblio (ctx_spec (projr (exit cex1_ctx)))) ''ns1'' = [] \<and>
   op_keys (entries (spec_biblio (ctx_spec (projr (exit cex1_ctx)))) ''root'') = [''Foo'']"
proof -
  have st: "clauseStack cex1_ctx \<noteq> []" "last (clauseStack cex1_ctx) = 0" "ctx_node cex1_ctx = 0"
    by (simp_all add: cex1_ctx_def sample_ctx_def)
  have sp: "spec_namespace (ctx_spec cex1_ctx) = ''root''"
    "entries (spec_biblio (ctx_spec cex1_ctx)) ''root'' = []"
    "entries (spec_biblio (ctx_spec cex1_ctx)) ''ns1'' = []"
    by (simp_all add: cex1_ctx_def sample_ctx_def sample_spec_def)
  have cl: "aoid (heap (ctx_spec cex1_ctx) 0) = Some ''Foo''"
    "namespace (heap (ctx_spec cex1_ctx) 0) = ''ns1''"
    by (simp_all add: cex1_ctx_def sample_ctx_def sample_spec_def sample_clause_def)
  have fresh: "''Foo'' \<notin> keysForNamespace (spec_biblio (ctx_spec cex1_ctx)) (spec_namespace (ctx_spec cex1_ctx))"
    by (simp add: keysForNamespace_def sp)
  have ne: "''Foo'' \<noteq> []" by simp
  from exit_result [OF st(1)] obtain ctx' where e: "exit cex1_ctx = Inr ctx'"
    and b: "spec_biblio (ctx_spec ctx') =
       add (spec_biblio (register_op 0 0 (ctx_spec cex1_ctx)))
         (ClauseEntry (clause_entry_of (heap (ctx_spec cex1_ctx) 0))) (spec_namespace (ctx_spec cex1_ctx))"
    unfolding st by blast
  note rb = register_op_fresh_biblio [OF cl(1) ne fresh, of 0]
  have b1: "entries (spec_biblio (ctx_spec ctx')) ''ns1'' = []"
    by (simp add: b rb add_def sp)
  have b2: "op_keys (entries (spec_biblio (ctx_spec ctx')) ''root'') = [''Foo'']"
    by (simp add: b rb add_def sp make_op_fields)
  from st cl sp e b1 b2 show ?thesis by simp
qed

lemma exit_Inr_stack: "exit ctx = Inr ctx' \<Longrightarrow> clauseStack ctx \<noteq> []"
  by (auto simp add: exit_def)

lemma mixed_completion_unionI:
  assumes "sig = Some sg" and "return sg = Some (Union ts)"
    and "t1 \<in> set ts" and "is_completion t1" and "t2 \<in> set ts" and "\<not> is_completion t2"
  shows "mixed_completion_union sig"
  using assms by (auto simp add: mixed_completion_union_def list_ex_iff)

text \<open>
  C6, as amended. For every clause that has a non-empty aoid not yet among the keys of
  the spec-level namespace and whose compiled return type is a union with at least one
  completion member and at least one member that is not a completion, exit emits
  exactly one diagnostic, the completion-union one, and still adds the op entry, with
  the clause's signature in it, followed by the clause entry.
\<close>

theorem exit_completion_union:
  assumes "clauseStack ctx \<noteq> []"
    and "aoid (heap (ctx_spec ctx) (last (clauseStack ctx))) = Some a" and "a \<noteq> []"
    and "a \<notin> keysForNamespace (spec_biblio (ctx_spec ctx)) (spec_namespace (ctx_spec ctx))"
    and "clause_signature (heap (ctx_spec ctx) (last (clauseStack ctx))) = Some sg"
    and "return sg = Some (Union ts)"
    and "t1 \<in> set ts" and "is_completion t1" and "t2 \<in> set ts" and "\<not> is_completion t2"
  shows "\<exists>ctx' w op e. exit ctx = Inr ctx' \<and>
     warnings (ctx_spec ctx') = warnings (ctx_spec ctx) @ [w] \<and>
     ruleId w = ''completion-union'' \<and>
     entries (spec_biblio (ctx_spec ctx')) (spec_namespace (ctx_spec ctx)) =
       entries (spec_biblio (ctx_spec ctx)) (spec_namespace (ctx_spec ctx)) @
         [OpEntry op, ClauseEntry e] \<and>
     op_aoid op = a \<and> op_signature op = Some sg"
proof -
  let ?sp = "ctx_spec ctx"
  let ?c = "last (clauseStack ctx)"
  let ?sp4 = "register_op ?c (ctx_node ctx) ?sp"
  from exit_result [OF assms(1)] obtain ctx' where e: "exit ctx = Inr ctx'"
    and w': "warnings (ctx_spec ctx') = warnings ?sp4"
    and bib: "spec_biblio (ctx_spec ctx') =
        add (spec_biblio ?sp4) (ClauseEntry (clause_entry_of (heap ?sp ?c))) (spec_namespace ?sp)"
    by blast
  have m: "mixed_completion_union (clause_signature (heap ?sp ?c))"
    using assms(5-10) by (rule mixed_completion_unionI)
  note o = register_op_fresh_biblio [OF assms(2) assms(3) assms(4), of "ctx_node ctx"]
  note ws = register_op_fresh_warnings [OF assms(2) assms(3) assms(4), of "ctx_node ctx"]
  have 1: "warnings (ctx_spec ctx') = warnings ?sp @ [completion_union_warning (header (heap ?sp ?c))]"
    by (simp add: w' ws m)
  have 2: "ruleId (completion_union_warning (header (heap ?sp ?c))) = ''completion-union''"
    by (simp add: completion_union_warning_def)
  have 3: "entries (spec_biblio (ctx_spec ctx')) (spec_namespace ?sp) =
       entries (spec_biblio ?sp) (spec_namespace ?sp) @
         [OpEntry (make_op ?c (heap ?sp ?c) a), ClauseEntry (clause_entry_of (heap ?sp ?c))]"
    by (simp add: bib o add_def)
  have 4: "op_aoid (make_op ?c (heap ?sp ?c) a) = a \<and>
           op_signature (make_op ?c (heap ?sp ?c) a) = Some sg"
    by (simp add: make_op_fields assms(5))
  from e 1 2 3 4 show ?thesis by blast
qed

theorem exit_completion_union_witness:
  "clauseStack union_ctx \<noteq> [] \<and>
   aoid (heap (ctx_spec union_ctx) (last (clauseStack union_ctx))) = Some ''Foo'' \<and> ''Foo'' \<noteq> [] \<and>
   ''Foo'' \<notin> keysForNamespace (spec_biblio (ctx_spec union_ctx)) (spec_namespace (ctx_spec union_ctx)) \<and>
   clause_signature (heap (ctx_spec union_ctx) (last (clauseStack union_ctx))) = Some union_signature \<and>
   return union_signature = Some (Union [Completion (Some (Named ''Number'')), Named ''Number'']) \<and>
   is_completion (Completion (Some (Named ''Number''))) \<and> \<not> is_completion (Named ''Number'') \<and>
   map ruleId (warnings (ctx_spec (projr (exit union_ctx)))) = [''completion-union''] \<and>
   op_keys (entries (spec_biblio (ctx_spec (projr (exit union_ctx)))) ''root'') = [''Foo'']"
proof -
  have st: "clauseStack union_ctx \<noteq> []"
    by (simp add: union_ctx_def sample_ctx_def)
  have sp: "spec_namespace (ctx_spec union_ctx) = ''root''" "warnings (ctx_spec union_ctx) = []"
    "entries (spec_biblio (ctx_spec union_ctx)) ''root'' = []"
    by (simp_all add: union_ctx_def sample_ctx_def sample_spec_def)
  have cl: "aoid (heap (ctx_spec union_ctx) (last (clauseStack union_ctx))) = Some ''Foo''"
    "clause_signature (heap (ctx_spec union_ctx) (last (clauseStack union_ctx))) = Some union_signature"
    by (simp_all add: union_ctx_def sample_ctx_def sample_spec_def sample_clause_def)
  have ne: "''Foo'' \<noteq> []" by simp
  have fresh: "''Foo'' \<notin> keysForNamespace (spec_biblio (ctx_spec union_ctx)) (spec_namespace (ctx_spec union_ctx))"
    by (simp add: keysForNamespace_def sp)
  have ret: "return union_signature = Some (Union [Completion (Some (Named ''Number'')), Named ''Number''])"
    by (simp add: union_signature_def)
  have m1: "Completion (Some (Named ''Number'')) \<in> set [Completion (Some (Named ''Number'')), Named ''Number'']"
    and m2: "Named ''Number'' \<in> set [Completion (Some (Named ''Number'')), Named ''Number'']"
    and k1: "is_completion (Completion (Some (Named ''Number'')))"
    and k2: "\<not> is_completion (Named ''Number'')"
    by simp_all
  from exit_completion_union [OF st cl(1) ne fresh cl(2) ret m1 k1 m2 k2] obtain ctx' where
    e: "exit union_ctx = Inr ctx'" and
    r: "map ruleId (warnings (ctx_spec ctx')) = [''completion-union'']"
       "op_keys (entries (spec_biblio (ctx_spec ctx')) ''root'') = [''Foo'']"
    by (auto simp add: sp)
  from st cl ne fresh ret k1 k2 e r show ?thesis by simp
qed

text \<open>
  C6 as stated fails for a clause without an aoid (a concrete method, say): its
  return type mixes a completion with a non-completion, and exit emits no diagnostic
  and adds no op entry.
\<close>

theorem exit_completion_union_counterexample:
  "clause_signature (heap (ctx_spec cex6_ctx) (last (clauseStack cex6_ctx))) = Some union_signature \<and>
   return union_signature = Some (Union [Completion (Some (Named ''Number'')), Named ''Number'']) \<and>
   is_completion (Completion (Some (Named ''Number''))) \<and> \<not> is_completion (Named ''Number'') \<and>
   \<not> isl (exit cex6_ctx) \<and>
   warnings (ctx_spec (projr (exit cex6_ctx))) = [] \<and>
   op_keys (entries (spec_biblio (ctx_spec (projr (exit cex6_ctx)))) (spec_namespace (ctx_spec cex6_ctx))) = []"
proof -
  have st: "clauseStack cex6_ctx \<noteq> []" "last (clauseStack cex6_ctx) = 0"
    by (simp_all add: cex6_ctx_def sample_ctx_def)
  have sp: "spec_namespace (ctx_spec cex6_ctx) = ''root''" "warnings (ctx_spec cex6_ctx) = []"
    "entries (spec_biblio (ctx_spec cex6_ctx)) ''root'' = []"
    by (simp_all add: cex6_ctx_def sample_ctx_def sample_spec_def)
  have cl: "aoid (heap (ctx_spec cex6_ctx) 0) = None"
    "clause_signature (heap (ctx_spec cex6_ctx) 0) = Some union_signature"
    by (simp_all add: cex6_ctx_def sample_ctx_def sample_spec_def sample_clause_def)
  have ret: "return union_signature = Some (Union [Completion (Some (Named ''Number'')), Named ''Number''])"
    by (simp add: union_signature_def)
  from exit_result [OF st(1)] obtain ctx' where e: "exit cex6_ctx = Inr ctx'"
    and w: "warnings (ctx_spec ctx') = warnings (register_op 0 (ctx_node cex6_ctx) (ctx_spec cex6_ctx))"
    and b: "spec_biblio (ctx_spec ctx') =
       add (spec_biblio (register_op 0 (ctx_node cex6_ctx) (ctx_spec cex6_ctx)))
         (ClauseEntry (clause_entry_of (heap (ctx_spec cex6_ctx) 0))) (spec_namespace (ctx_spec cex6_ctx))"
    unfolding st by blast
  note r = register_op_none [OF cl(1), of "ctx_node cex6_ctx"]
  have w0: "warnings (ctx_spec ctx') = []"
    by (simp add: w r sp)
  have b0: "op_keys (entries (spec_biblio (ctx_spec ctx')) ''root'') = []"
    by (simp add: b r add_def sp)
  from st cl ret e w0 b0 sp show ?thesis by simp
qed

text \<open>
  C2, as amended. Two clauses declare the same non-empty aoid, which is not yet a key of
  the spec-level namespace when the first of them exits; between the two exits the
  bibliography may have grown (\<open>mid\<close>). Whatever the clauses' own namespaces are, the
  two exits together emit exactly one duplicate-definition diagnostic, at the second
  clause, and add exactly one op entry, that of the first clause; each of the two
  clauses gets its clause entry.
\<close>

theorem exit_twice_same_aoid:
  assumes "exit ctxA = Inr ctxA'"
    and "aoid (heap (ctx_spec ctxA) (last (clauseStack ctxA))) = Some a" and "a \<noteq> []"
    and "a \<notin> keysForNamespace (spec_biblio (ctx_spec ctxA)) (spec_namespace (ctx_spec ctxA))"
    and "clauseStack ctxB \<noteq> []"
    and "aoid (heap (ctx_spec ctxB) (last (clauseStack ctxB))) = Some a"
    and "spec_namespace (ctx_spec ctxB) = spec_namespace (ctx_spec ctxA')"
    and "entries (spec_biblio (ctx_spec ctxB)) (spec_namespace (ctx_spec ctxB)) =
           entries (spec_biblio (ctx_spec ctxA')) (spec_namespace (ctx_spec ctxA')) @ mid"
  shows "\<exists>ctxB' wsA. exit ctxB = Inr ctxB' \<and>
     warnings (ctx_spec ctxA') = warnings (ctx_spec ctxA) @ wsA \<and>
     ''duplicate-definition'' \<notin> ruleId ` set wsA \<and>
     warnings (ctx_spec ctxB') = warnings (ctx_spec ctxB) @
       [\<lparr>w_type = ''node'', ruleId = ''duplicate-definition'',
         message = ''duplicate definition '' @ JSON_stringify a,
         w_node = Some (ctx_node ctxB), w_attr = None,
         nodeRelativeLine = None, nodeRelativeColumn = None\<rparr>] \<and>
     entries (spec_biblio (ctx_spec ctxB')) (spec_namespace (ctx_spec ctxA)) =
       entries (spec_biblio (ctx_spec ctxA)) (spec_namespace (ctx_spec ctxA)) @
         [OpEntry (make_op (last (clauseStack ctxA)) (heap (ctx_spec ctxA) (last (clauseStack ctxA))) a),
          ClauseEntry (clause_entry_of (heap (ctx_spec ctxA) (last (clauseStack ctxA))))] @
         mid @
         [ClauseEntry (clause_entry_of (heap (ctx_spec ctxB) (last (clauseStack ctxB))))]"
proof -
  let ?A = "ctx_spec ctxA"
  let ?cA = "last (clauseStack ctxA)"
  let ?B = "ctx_spec ctxB"
  let ?cB = "last (clauseStack ctxB)"
  let ?root = "spec_namespace ?A"
  have stA: "clauseStack ctxA \<noteq> []" using assms(1) by (rule exit_Inr_stack)
  from exit_result [OF stA] assms(1) have
    nsA: "spec_namespace (ctx_spec ctxA') = ?root"
    and wA: "warnings (ctx_spec ctxA') = warnings (register_op ?cA (ctx_node ctxA) ?A)"
    and bA: "spec_biblio (ctx_spec ctxA') =
        add (spec_biblio (register_op ?cA (ctx_node ctxA) ?A))
          (ClauseEntry (clause_entry_of (heap ?A ?cA))) ?root"
    by auto
  note oA = register_op_fresh_biblio [OF assms(2) assms(3) assms(4), of "ctx_node ctxA"]
  note wsA = register_op_fresh_warnings [OF assms(2) assms(3) assms(4), of "ctx_node ctxA"]
  have eA: "entries (spec_biblio (ctx_spec ctxA')) ?root =
       entries (spec_biblio ?A) ?root @
         [OpEntry (make_op ?cA (heap ?A ?cA) a), ClauseEntry (clause_entry_of (heap ?A ?cA))]"
    by (simp add: bA oA add_def)
  have nsB: "spec_namespace ?B = ?root" using assms(7) nsA by simp
  have eB: "entries (spec_biblio ?B) ?root =
       entries (spec_biblio ?A) ?root @
         [OpEntry (make_op ?cA (heap ?A ?cA) a), ClauseEntry (clause_entry_of (heap ?A ?cA))] @ mid"
    using assms(8) eA nsA nsB by simp
  have op_keys_append: "\<And>xs ys. op_keys (xs @ ys) = op_keys xs @ op_keys ys"
  proof -
    fix xs ys :: "entry list"
    show "op_keys (xs @ ys) = op_keys xs @ op_keys ys"
      by (induction xs rule: op_keys.induct) simp_all
  qed
  have dup: "a \<in> keysForNamespace (spec_biblio ?B) (spec_namespace ?B)"
    by (simp add: keysForNamespace_def nsB eB op_keys_append make_op_fields)
  from exit_result [OF assms(5)] obtain ctxB' where e: "exit ctxB = Inr ctxB'"
    and wB: "warnings (ctx_spec ctxB') = warnings (register_op ?cB (ctx_node ctxB) ?B)"
    and bB: "spec_biblio (ctx_spec ctxB') =
        add (spec_biblio (register_op ?cB (ctx_node ctxB) ?B))
          (ClauseEntry (clause_entry_of (heap ?B ?cB))) (spec_namespace ?B)"
    by blast
  note rB = register_op_dup [OF assms(6) assms(3) dup, of "ctx_node ctxB"]
  have 1: "warnings (ctx_spec ctxA') = warnings ?A @
       (if mixed_completion_union (clause_signature (heap ?A ?cA))
        then [completion_union_warning (header (heap ?A ?cA))] else [])"
    by (simp add: wA wsA)
  have 2: "''duplicate-definition'' \<notin> ruleId ` set
       (if mixed_completion_union (clause_signature (heap ?A ?cA))
        then [completion_union_warning (header (heap ?A ?cA))] else [])"
    by (auto simp add: completion_union_warning_def)
  have 3: "warnings (ctx_spec ctxB') = warnings ?B @
       [\<lparr>w_type = ''node'', ruleId = ''duplicate-definition'',
         message = ''duplicate definition '' @ JSON_stringify a,
         w_node = Some (ctx_node ctxB), w_attr = None,
         nodeRelativeLine = None, nodeRelativeColumn = None\<rparr>]"
    by (simp add: wB rB warn_def node_warning_def)
  have 4: "entries (spec_biblio (ctx_spec ctxB')) ?root =
       entries (spec_biblio ?A) ?root @
         [OpEntry (make_op ?cA (heap ?A ?cA) a), ClauseEntry (clause_entry_of (heap ?A ?cA))] @
         mid @ [ClauseEntry (clause_entry_of (heap ?B ?cB))]"
    by (simp add: bB rB warn_def add_def nsB eB)
  from e 1 2 3 4 show ?thesis by blast
qed

theorem exit_twice_same_aoid_witness:
  "exit twice_ctx = Inr (projr (exit twice_ctx)) \<and>
   aoid (heap (ctx_spec twice_ctx) (last (clauseStack twice_ctx))) = Some ''Foo'' \<and> ''Foo'' \<noteq> [] \<and>
   ''Foo'' \<notin> keysForNamespace (spec_biblio (ctx_spec twice_ctx)) (spec_namespace (ctx_spec twice_ctx)) \<and>
   clauseStack ((projr (exit twice_ctx))\<lparr>ctx_node := 2\<rparr>) = [2] \<and>
   aoid (heap (ctx_spec (projr (exit twice_ctx))) 2) = Some ''Foo'' \<and>
   \<not> isl (exit ((projr (exit twice_ctx))\<lparr>ctx_node := 2\<rparr>)) \<and>
   map ruleId (warnings (ctx_spec (projr (exit ((projr (exit twice_ctx))\<lparr>ctx_node := 2\<rparr>))))) =
     [''duplicate-definition''] \<and>
   op_keys (entries (spec_biblio (ctx_spec (projr (exit ((projr (exit twice_ctx))\<lparr>ctx_node := 2\<rparr>)))))
      ''root'') = [''Foo'']"
proof -
  have st: "clauseStack twice_ctx \<noteq> []" "last (clauseStack twice_ctx) = 0"
    "butlast (clauseStack twice_ctx) = [2]"
    by (simp_all add: twice_ctx_def sample_ctx_def)
  have sp: "spec_namespace (ctx_spec twice_ctx) = ''root''" "warnings (ctx_spec twice_ctx) = []"
    "entries (spec_biblio (ctx_spec twice_ctx)) ''root'' = []"
    by (simp_all add: twice_ctx_def sample_ctx_def sample_spec_def)
  have cl: "aoid (heap (ctx_spec twice_ctx) 0) = Some ''Foo''"
    "aoid (heap (ctx_spec twice_ctx) 2) = Some ''Foo''"
    "clause_signature (heap (ctx_spec twice_ctx) 0) = None"
    by (simp_all add: twice_ctx_def sample_ctx_def sample_spec_def sample_clause_def)
  have ne: "''Foo'' \<noteq> []" by simp
  have fresh: "''Foo'' \<notin> keysForNamespace (spec_biblio (ctx_spec twice_ctx)) (spec_namespace (ctx_spec twice_ctx))"
    by (simp add: keysForNamespace_def sp)
  from exit_result [OF st(1)] obtain A' where eA: "exit twice_ctx = Inr A'"
    and sA: "clauseStack A' = [2]"
    and nA: "spec_namespace (ctx_spec A') = ''root''"
    and hA: "heap (ctx_spec A') = heap (ctx_spec twice_ctx)"
    and wA: "warnings (ctx_spec A') = warnings (register_op 0 (ctx_node twice_ctx) (ctx_spec twice_ctx))"
    unfolding st sp by blast
  have pA: "projr (exit twice_ctx) = A'" by (simp add: eA)
  let ?B = "A'\<lparr>ctx_node := 2\<rparr>"
  have a0: "aoid (heap (ctx_spec twice_ctx) (last (clauseStack twice_ctx))) = Some ''Foo''"
    by (simp add: st cl)
  have sB: "clauseStack ?B \<noteq> []" by (simp add: sA)
  have aB: "aoid (heap (ctx_spec ?B) (last (clauseStack ?B))) = Some ''Foo''"
    by (simp add: sA hA cl)
  have nB: "spec_namespace (ctx_spec ?B) = spec_namespace (ctx_spec A')" by simp
  have mB: "entries (spec_biblio (ctx_spec ?B)) (spec_namespace (ctx_spec ?B)) =
            entries (spec_biblio (ctx_spec A')) (spec_namespace (ctx_spec A')) @ []" by simp
  have wA0: "warnings (ctx_spec A') = []"
    by (simp add: wA sp cl mixed_completion_union_def
          register_op_fresh_warnings [OF cl(1) ne fresh])
  from exit_twice_same_aoid [OF eA a0 ne fresh sB aB nB mB] obtain B' where
    eB: "exit ?B = Inr B'" and
    r: "map ruleId (warnings (ctx_spec B')) = [''duplicate-definition'']"
       "op_keys (entries (spec_biblio (ctx_spec B')) ''root'') = [''Foo'']"
    by (auto simp add: sp wA0 node_warning_def make_op_fields)
  from eA a0 ne fresh sA hA cl eB r show ?thesis by (simp add: pA)
qed

lemma op_keys_append: "op_keys (xs @ ys) = op_keys xs @ op_keys ys"
  by (induction xs rule: op_keys.induct) simp_all

lemma register_op_empty: "aoid (heap sp c) = Some [] \<Longrightarrow> register_op c nd sp = sp"
  by (simp add: register_op_def)

text \<open>
  C2 as stated fails. Two clauses of the namespace \<open>ns1\<close> declare \<open>Foo\<close>, which a clause
  of another namespace declared before them, so that its op entry sits in the
  spec-level namespace: both exits emit a duplicate-definition diagnostic and neither
  adds an op entry. And two clauses whose aoid is the empty string (a bare \<open>aoid\<close>
  attribute on a node without an id) get no diagnostic and no op entry at all.
\<close>

theorem exit_twice_same_aoid_counterexample:
  "namespace (heap (ctx_spec cex2_ctx) 0) = ''ns1'' \<and>
   namespace (heap (ctx_spec cex2_ctx) 2) = ''ns1'' \<and>
   aoid (heap (ctx_spec cex2_ctx) 0) = Some ''Foo'' \<and>
   aoid (heap (ctx_spec cex2_ctx) 2) = Some ''Foo'' \<and>
   clauseStack cex2_ctx = [2, 0] \<and>
   op_keys (entries (spec_biblio (ctx_spec cex2_ctx)) ''ns1'') = [] \<and>
   op_keys (entries (spec_biblio (ctx_spec cex2_ctx)) ''root'') = [''Foo''] \<and>
   \<not> isl (exit cex2_ctx) \<and>
   clauseStack (projr (exit cex2_ctx)) = [2] \<and>
   \<not> isl (exit ((projr (exit cex2_ctx))\<lparr>ctx_node := 2\<rparr>)) \<and>
   map ruleId (warnings (ctx_spec (projr (exit ((projr (exit cex2_ctx))\<lparr>ctx_node := 2\<rparr>))))) =
     [''duplicate-definition'', ''duplicate-definition''] \<and>
   entries (spec_biblio (ctx_spec (projr (exit ((projr (exit cex2_ctx))\<lparr>ctx_node := 2\<rparr>))))) ''root'' =
     entries (spec_biblio (ctx_spec cex2_ctx)) ''root'' @
       [ClauseEntry (clause_entry_of (heap (ctx_spec cex2_ctx) 0)),
        ClauseEntry (clause_entry_of (heap (ctx_spec cex2_ctx) 2))] \<and>
   aoid (heap (ctx_spec empty_aoid_ctx) 0) = Some [] \<and>
   aoid (heap (ctx_spec empty_aoid_ctx) 2) = Some [] \<and>
   clauseStack empty_aoid_ctx = [2, 0] \<and>
   \<not> isl (exit empty_aoid_ctx) \<and>
   \<not> isl (exit ((projr (exit empty_aoid_ctx))\<lparr>ctx_node := 2\<rparr>)) \<and>
   warnings (ctx_spec (projr (exit ((projr (exit empty_aoid_ctx))\<lparr>ctx_node := 2\<rparr>)))) = [] \<and>
   op_keys (entries (spec_biblio (ctx_spec (projr (exit ((projr (exit empty_aoid_ctx))\<lparr>ctx_node := 2\<rparr>)))))
      ''root'') = []"
proof -
  have declared_before:
    "namespace (heap (ctx_spec cex2_ctx) 0) = ''ns1'' \<and>
    namespace (heap (ctx_spec cex2_ctx) 2) = ''ns1'' \<and>
    aoid (heap (ctx_spec cex2_ctx) 0) = Some ''Foo'' \<and>
    aoid (heap (ctx_spec cex2_ctx) 2) = Some ''Foo'' \<and>
    clauseStack cex2_ctx = [2, 0] \<and>
    op_keys (entries (spec_biblio (ctx_spec cex2_ctx)) ''ns1'') = [] \<and>
    op_keys (entries (spec_biblio (ctx_spec cex2_ctx)) ''root'') = [''Foo''] \<and>
    \<not> isl (exit cex2_ctx) \<and>
    clauseStack (projr (exit cex2_ctx)) = [2] \<and>
    \<not> isl (exit ((projr (exit cex2_ctx))\<lparr>ctx_node := 2\<rparr>)) \<and>
    map ruleId (warnings (ctx_spec (projr (exit ((projr (exit cex2_ctx))\<lparr>ctx_node := 2\<rparr>))))) =
      [''duplicate-definition'', ''duplicate-definition''] \<and>
    entries (spec_biblio (ctx_spec (projr (exit ((projr (exit cex2_ctx))\<lparr>ctx_node := 2\<rparr>))))) ''root'' =
      entries (spec_biblio (ctx_spec cex2_ctx)) ''root'' @
        [ClauseEntry (clause_entry_of (heap (ctx_spec cex2_ctx) 0)),
         ClauseEntry (clause_entry_of (heap (ctx_spec cex2_ctx) 2))]"
  proof -
    let ?A = "cex2_ctx"
    have st: "clauseStack ?A \<noteq> []" "last (clauseStack ?A) = 0" "butlast (clauseStack ?A) = [2]"
      "clauseStack ?A = [2, 0]"
      by (simp_all add: cex2_ctx_def sample_ctx_def)
    have sp: "spec_namespace (ctx_spec ?A) = ''root''" "warnings (ctx_spec ?A) = []"
      "entries (spec_biblio (ctx_spec ?A)) ''root'' =
         [OpEntry (make_op 7 earlier_clause ''Foo''), ClauseEntry (clause_entry_of earlier_clause)]"
      "entries (spec_biblio (ctx_spec ?A)) ''ns1'' = []"
      by (simp_all add: cex2_ctx_def sample_ctx_def sample_spec_def)
    have cl: "aoid (heap (ctx_spec ?A) 0) = Some ''Foo''" "aoid (heap (ctx_spec ?A) 2) = Some ''Foo''"
      "namespace (heap (ctx_spec ?A) 0) = ''ns1''" "namespace (heap (ctx_spec ?A) 2) = ''ns1''"
      by (simp_all add: cex2_ctx_def sample_ctx_def sample_spec_def sample_clause_def)
    have ne: "''Foo'' \<noteq> []" by simp
    have k0: "op_keys (entries (spec_biblio (ctx_spec ?A)) ''root'') = [''Foo'']"
      by (simp add: sp make_op_fields)
    have dupA: "''Foo'' \<in> keysForNamespace (spec_biblio (ctx_spec ?A)) (spec_namespace (ctx_spec ?A))"
      by (simp add: keysForNamespace_def sp make_op_fields)
    from exit_result [OF st(1)] obtain A' where eA: "exit ?A = Inr A'"
      and sA: "clauseStack A' = [2]"
      and nA: "spec_namespace (ctx_spec A') = ''root''"
      and hA: "heap (ctx_spec A') = heap (ctx_spec ?A)"
      and wA: "warnings (ctx_spec A') = warnings (register_op 0 (ctx_node ?A) (ctx_spec ?A))"
      and bA: "spec_biblio (ctx_spec A') =
          add (spec_biblio (register_op 0 (ctx_node ?A) (ctx_spec ?A)))
            (ClauseEntry (clause_entry_of (heap (ctx_spec ?A) 0))) ''root''"
      unfolding st(2,3) sp by blast
    note rA = register_op_dup [OF cl(1) ne dupA, of "ctx_node ?A"]
    have wA1: "map ruleId (warnings (ctx_spec A')) = [''duplicate-definition'']"
      by (simp add: wA rA warn_def sp node_warning_def)
    have eAr: "entries (spec_biblio (ctx_spec A')) ''root'' =
         entries (spec_biblio (ctx_spec ?A)) ''root'' @ [ClauseEntry (clause_entry_of (heap (ctx_spec ?A) 0))]"
      by (simp add: bA rA warn_def add_def)
    let ?B = "A'\<lparr>ctx_node := 2\<rparr>"
    have sB: "clauseStack ?B \<noteq> []" "last (clauseStack ?B) = 2" by (simp_all add: sA)
    have aB: "aoid (heap (ctx_spec ?B) 2) = Some ''Foo''" by (simp add: hA cl)
    have dupB: "''Foo'' \<in> keysForNamespace (spec_biblio (ctx_spec ?B)) (spec_namespace (ctx_spec ?B))"
      by (simp add: keysForNamespace_def nA eAr op_keys_append k0)
    from exit_result [OF sB(1)] obtain B' where eB: "exit ?B = Inr B'"
      and wB: "warnings (ctx_spec B') = warnings (register_op 2 (ctx_node ?B) (ctx_spec ?B))"
      and bB: "spec_biblio (ctx_spec B') =
          add (spec_biblio (register_op 2 (ctx_node ?B) (ctx_spec ?B)))
            (ClauseEntry (clause_entry_of (heap (ctx_spec ?B) 2))) (spec_namespace (ctx_spec ?B))"
      unfolding sB by blast
    have rB: "register_op 2 2 (ctx_spec A') =
        warn (ctx_spec A') (node_warning ''duplicate-definition''
          (''duplicate definition '' @ JSON_stringify ''Foo'') 2)"
      using register_op_dup [OF aB ne dupB, of "ctx_node ?B"] by simp
    have wB1: "map ruleId (warnings (ctx_spec B')) = [''duplicate-definition'', ''duplicate-definition'']"
      by (simp add: wB rB warn_def node_warning_def wA1)
    have eBr: "entries (spec_biblio (ctx_spec B')) ''root'' =
         entries (spec_biblio (ctx_spec ?A)) ''root'' @
           [ClauseEntry (clause_entry_of (heap (ctx_spec ?A) 0)),
            ClauseEntry (clause_entry_of (heap (ctx_spec ?A) 2))]"
      by (simp add: bB rB warn_def add_def nA eAr hA)
    have pA: "projr (exit ?A) = A'" by (simp add: eA)
    from st(4) cl sp(4) k0 eA sA eB wB1 eBr show ?thesis by (simp add: pA)
  qed
  have empty_aoid:
    "aoid (heap (ctx_spec empty_aoid_ctx) 0) = Some [] \<and>
    aoid (heap (ctx_spec empty_aoid_ctx) 2) = Some [] \<and>
    clauseStack empty_aoid_ctx = [2, 0] \<and>
    \<not> isl (exit empty_aoid_ctx) \<and>
    \<not> isl (exit ((projr (exit empty_aoid_ctx))\<lparr>ctx_node := 2\<rparr>)) \<and>
    warnings (ctx_spec (projr (exit ((projr (exit empty_aoid_ctx))\<lparr>ctx_node := 2\<rparr>)))) = [] \<and>
    op_keys (entries (spec_biblio (ctx_spec (projr (exit ((projr (exit empty_aoid_ctx))\<lparr>ctx_node := 2\<rparr>)))))
       ''root'') = []"
  proof -
    let ?A = "empty_aoid_ctx"
    have st: "clauseStack ?A \<noteq> []" "last (clauseStack ?A) = 0" "butlast (clauseStack ?A) = [2]"
      "clauseStack ?A = [2, 0]"
      by (simp_all add: empty_aoid_ctx_def sample_ctx_def)
    have sp: "spec_namespace (ctx_spec ?A) = ''root''" "warnings (ctx_spec ?A) = []"
      "entries (spec_biblio (ctx_spec ?A)) ''root'' = []"
      by (simp_all add: empty_aoid_ctx_def sample_ctx_def sample_spec_def)
    have cl: "aoid (heap (ctx_spec ?A) 0) = Some []" "aoid (heap (ctx_spec ?A) 2) = Some []"
      by (simp_all add: empty_aoid_ctx_def sample_ctx_def sample_spec_def sample_clause_def)
    from exit_result [OF st(1)] obtain A' where eA: "exit ?A = Inr A'"
      and sA: "clauseStack A' = [2]"
      and nA: "spec_namespace (ctx_spec A') = ''root''"
      and hA: "heap (ctx_spec A') = heap (ctx_spec ?A)"
      and wA: "warnings (ctx_spec A') = warnings (register_op 0 (ctx_node ?A) (ctx_spec ?A))"
      and bA: "spec_biblio (ctx_spec A') =
          add (spec_biblio (register_op 0 (ctx_node ?A) (ctx_spec ?A)))
            (ClauseEntry (clause_entry_of (heap (ctx_spec ?A) 0))) ''root''"
      unfolding st(2,3) sp by blast
    note rA = register_op_empty [OF cl(1), of "ctx_node ?A"]
    have wA1: "warnings (ctx_spec A') = []" by (simp add: wA rA sp)
    have eAr: "entries (spec_biblio (ctx_spec A')) ''root'' =
         [ClauseEntry (clause_entry_of (heap (ctx_spec ?A) 0))]"
      by (simp add: bA rA add_def sp)
    let ?B = "A'\<lparr>ctx_node := 2\<rparr>"
    have sB: "clauseStack ?B \<noteq> []" "last (clauseStack ?B) = 2" by (simp_all add: sA)
    have aB: "aoid (heap (ctx_spec ?B) 2) = Some []" by (simp add: hA cl)
    from exit_result [OF sB(1)] obtain B' where eB: "exit ?B = Inr B'"
      and wB: "warnings (ctx_spec B') = warnings (register_op 2 (ctx_node ?B) (ctx_spec ?B))"
      and bB: "spec_biblio (ctx_spec B') =
          add (spec_biblio (register_op 2 (ctx_node ?B) (ctx_spec ?B)))
            (ClauseEntry (clause_entry_of (heap (ctx_spec ?B) 2))) (spec_namespace (ctx_spec ?B))"
      unfolding sB by blast
    have rB: "register_op 2 2 (ctx_spec A') = ctx_spec A'"
      using register_op_empty [OF aB, of "ctx_node ?B"] by simp
    have wB1: "warnings (ctx_spec B') = []" by (simp add: wB rB wA1)
    have eBr: "op_keys (entries (spec_biblio (ctx_spec B')) ''root'') = []"
      by (simp add: bB rB add_def nA eAr)
    have pA: "projr (exit ?A) = A'" by (simp add: eA)
    from st(4) cl eA eB wB1 eBr show ?thesis by (simp add: pA)
  qed
  from declared_before empty_aoid show ?thesis by simp
qed

subsection \<open>buildStructuredHeader\<close>

lemma compile_signature_frame:
  assumes "compile_signature E this hdr src pr sp = Inr sp1"
  shows "doc sp1 = doc sp" and "aoid (heap sp1 c) = aoid (heap sp c)"
    and "node (heap sp1 c) = node (heap sp c)"
    and "clause_type (heap sp1 c) = clause_type (heap sp c)"
    and "number (heap sp1 c) = number (heap sp c)"
  using assms
  by (auto simp add: compile_signature_def update_clause_def warn_def
        split: parse_result.splits sum.splits exn.splits prod.splits)

lemma compile_signature_Failure [simp]:
  "compile_signature E this hdr src (Failure msg) sp = Inr sp"
  by (simp add: compile_signature_def)

lemma check_numeric_method_frame [simp]:
  "doc (check_numeric_method ty nm hdr sp) = doc sp"
  "heap (check_numeric_method ty nm hdr sp) = heap sp"
  by (simp_all add: check_numeric_method_def warn_def)

lemma warn_all_frame [simp]:
  "doc (warn_all sp ws) = doc sp" "heap (warn_all sp ws) = heap sp"
  "warnings (warn_all sp ws) = warnings sp @ ws"
  by (simp_all add: warn_all_def)

lemma replaceWith_attributes_aux: "attributes (set_parents f p ms n) = attributes (f n)"
proof (induction ms arbitrary: f)
  case Nil
  show ?case by simp
next
  case (Cons m ms)
  have "attributes (set_parents (f(m := (f m)\<lparr>parentNode := p\<rparr>)) p ms n) =
        attributes ((f(m := (f m)\<lparr>parentNode := p\<rparr>)) n)"
    by (rule Cons.IH)
  then show ?case by simp
qed

lemma detach_attributes [simp]: "attributes (nodes (detach d m) n) = attributes (nodes d n)"
  by (simp add: detach_def split: option.splits)

lemma detach_all_attributes [simp]: "attributes (nodes (detach_all d ms) n) = attributes (nodes d n)"
  by (induction d ms rule: detach_all.induct) simp_all

lemma replaceWith_attributes [simp]:
  "attributes (nodes (replaceWith d x new) n) = attributes (nodes d n)"
  by (simp add: replaceWith_def Let_def replaceWith_attributes_aux split: option.splits)

lemma replaceWith_hasAttribute [simp]:
  "hasAttribute (replaceWith d x new) n k = hasAttribute d n k"
  by (simp add: hasAttribute_def)

lemma assign_aoid_aoid:
  "aoid (heap (assign_aoid this redef nm ty sp) this) =
     (if \<not> redef \<and> \<not> hasAttribute (doc sp) (node (heap sp this)) ''aoid'' \<and> nm \<noteq> None \<and>
         ty \<in> Some ` set aoidTypes
      then nm else aoid (heap sp this))"
  by (auto simp add: assign_aoid_def update_clause_def warn_def)

lemma assign_aoid_warnings:
  "warnings (assign_aoid this redef nm ty sp) =
     warnings sp @
     (if \<not> redef \<and> hasAttribute (doc sp) (node (heap sp this)) ''aoid''
      then [attr_warning ''header-format''
              ''nodes with structured headers should not include an AOID''
              (node (heap sp this)) ''aoid'']
      else [])"
  by (auto simp add: assign_aoid_def update_clause_def warn_def)

lemma map_of_update_attr: "map_of (update_attr k v ps) k = Some v"
  by (induction ps) auto

lemma assign_aoid_attribute:
  "getAttribute (doc (assign_aoid this redef nm ty sp)) (node (heap sp this)) ''aoid'' =
     (if \<not> redef \<and> \<not> hasAttribute (doc sp) (node (heap sp this)) ''aoid'' \<and> nm \<noteq> None \<and>
         ty \<in> Some ` set aoidTypes
      then nm else getAttribute (doc sp) (node (heap sp this)) ''aoid'')"
  by (auto simp add: assign_aoid_def update_clause_def warn_def setAttribute_def getAttribute_def
        map_of_update_attr)

lemma buildStructuredHeader_result:
  assumes "extractStructuredHeader (doc sp) headerSurrogate = Some dl"
    and "compile_signature E this hdr (headerSource_of E (doc sp) hdr)
           (parseH1 E (headerSource_of E (doc sp) hdr)) sp = Inr sp1"
    and "formatHeader E (doc sp) hdr (parseH1 E (headerSource_of E (doc sp) hdr)) = (ws2, fh)"
    and "parseStructuredHeaderDl E
           (render_header E (clause_type (heap sp this)) (formattedHeader fh) hdr (doc sp))
           (clause_type (heap sp this)) dl = (ws5, dlf)"
    and "formatPreamble E
           (render_header E (clause_type (heap sp this)) (formattedHeader fh) hdr (doc sp))
           (node (heap sp this)) dl (clause_type (heap sp this))
           (case name fh of Some n \<Rightarrow> n | None \<Rightarrow> ''UNKNOWN'')
           (case formattedParams fh of Some ps \<Rightarrow> ps | None \<Rightarrow> ''UNPARSEABLE ARGUMENTS'')
           (formattedReturnType fh) (dl_for dlf) (description dlf) = (ws6, paras, d6)"
  shows "buildStructuredHeader E this hdr headerSurrogate sp =
     Inr ((update_clause
            (assign_aoid this (redefinition dlf) (name fh) (clause_type (heap sp this))
               ((warn_all (warn_all
                   ((check_numeric_method (clause_type (heap sp this)) (name fh) hdr (warn_all sp1 ws2))
                      \<lparr>doc := render_header E (clause_type (heap sp this)) (formattedHeader fh) hdr (doc sp)\<rparr>)
                   ws5) ws6)\<lparr>doc := replaceWith d6 dl paras\<rparr>))
            this
            (\<lambda>c. c\<lparr>skipGlobalChecks := dl_skipGlobalChecks dlf,
                    skipReturnChecks := dl_skipReturnChecks dlf,
                    effects := effects c @ dl_effects dlf\<rparr>))
          \<lparr>effectWorklist :=
             push_effects
               (effectWorklist
                 (assign_aoid this (redefinition dlf) (name fh) (clause_type (heap sp this))
                    ((warn_all (warn_all
                        ((check_numeric_method (clause_type (heap sp this)) (name fh) hdr (warn_all sp1 ws2))
                           \<lparr>doc := render_header E (clause_type (heap sp this)) (formattedHeader fh) hdr (doc sp)\<rparr>)
                        ws5) ws6)\<lparr>doc := replaceWith d6 dl paras\<rparr>)))
               (dl_effects dlf) this\<rparr>)"
  using assms compile_signature_frame [OF assms(2)]
  by (simp add: buildStructuredHeader_def Let_def update_clause_def)

lemma header_doc_extract: "extractStructuredHeader (header_doc tag h1) 11 = Some 12"
  by (simp add: extractStructuredHeader_def header_doc_def nextElementSibling_def
        followingElementSiblings_def children_def traverseWhile_siblings_def
        classList_contains_def getAttribute_def isASCIIWhiteSpace_def)

lemma header_spec_fields:
  "doc (header_spec h1) = header_doc ''EMU-CLAUSE'' h1"
  "clause_type (heap (header_spec h1) c) = Some ''abstract operation''"
  "node (heap (header_spec h1) c) = 10"
  "aoid (heap (header_spec h1) c) = None"
  "clause_signature (heap (header_spec h1) c) = None"
  by (simp_all add: header_spec_def sample_spec_def sample_clause_def)

lemma header_doc_source: "headerSource_of sample_env (header_doc tag h1) 11 = h1"
  by (simp add: headerSource_of_def sample_env_def header_doc_def)

lemma sample_env_preamble:
  "formatPreamble sample_env d nd dl ty nm ps rt fr ds =
     ([], [nextNode d], snd (createTextNode d (nm @ '' takes '' @ ps)))"
  by (simp add: sample_env_def)

lemma sample_env_dl:
  "parseStructuredHeaderDl sample_env d ty dl =
     ([], \<lparr>description = None, dl_for = None, dl_effects = [], redefinition = False,
           dl_skipGlobalChecks = False, dl_skipReturnChecks = False\<rparr>)"
  by (simp add: sample_env_def)

lemma sample_env_parseH1:
  "parseH1 sample_env s =
     (if s = ''Foo ( )''
      then Parsed \<lparr>ph_name = ''Foo'', params = [], optionalParams = [],
                   returnType = None, returnOffset = 0\<rparr>
      else Failure ''unexpected token'')"
  by (simp add: sample_env_def)

lemma sample_env_formatter:
  "header_formatter sample_env d h (Parsed ph) =
     ([], \<lparr>name = Some (ph_name ph), formattedHeader = Some (ph_name ph @ '' ( )''),
           formattedParams = Some [], formattedReturnType = None\<rparr>)"
  by (simp add: sample_env_def)

lemma sample_env_render:
  "render_header sample_env (Some ''abstract operation'') fh 11 (header_doc tag h1) =
     (case fh of None \<Rightarrow> header_doc tag h1
      | Some h \<Rightarrow> (header_doc tag h1)\<lparr>nodes := (nodes (header_doc tag h1))
           (11 := (nodes (header_doc tag h1) 11)\<lparr>textData := h\<rparr>)\<rparr>)"
  by (simp add: render_header_def sample_env_def split: option.splits)

lemma aoid_header_spec_fields:
  "doc aoid_header_spec = aoid_header_doc"
  "clause_type (heap aoid_header_spec c) = Some ''abstract operation''"
  "node (heap aoid_header_spec c) = 10"
  "aoid (heap aoid_header_spec c) = Some ''Bar''"
  "warnings aoid_header_spec = []"
  by (simp_all add: aoid_header_spec_def sample_spec_def sample_clause_def)

lemma aoid_header_doc_facts:
  "extractStructuredHeader aoid_header_doc 11 = Some 12"
  "headerSource_of sample_env aoid_header_doc 11 = ''Foo ( )''"
  "hasAttribute aoid_header_doc 10 ''aoid''"
  "getAttribute aoid_header_doc 10 ''aoid'' = Some ''Bar''"
  "nextNode aoid_header_doc = 20"
  by (simp_all add: aoid_header_doc_def setAttribute_def extractStructuredHeader_def header_doc_def
        nextElementSibling_def followingElementSiblings_def children_def traverseWhile_siblings_def
        classList_contains_def getAttribute_def hasAttribute_def isASCIIWhiteSpace_def
        headerSource_of_def sample_env_def)

lemma sample_env_render_any:
  "render_header sample_env (Some ''abstract operation'') fh hdr d =
     (case fh of None \<Rightarrow> d
      | Some h \<Rightarrow> d\<lparr>nodes := (nodes d)(hdr := (nodes d hdr)\<lparr>textData := h\<rparr>)\<rparr>)"
  by (simp add: render_header_def sample_env_def split: option.splits)

text \<open>
  C4. For a clause with a structured header whose signature compiles without a foreign
  exception: after buildStructuredHeader the parsed name is the clause's aoid (and the
  node's aoid attribute) exactly when the description list does not mark a
  redefinition, the node carries no aoid attribute, the name is not null and the
  declared kind is one of \<open>aoidTypes\<close>; otherwise aoid and attribute are as before. A
  node that carries an aoid attribute and is not a redefinition gets the header-format
  warning, as the last diagnostic, and no new aoid. The header and preamble formatters
  are taken to leave the attributes of the clause's node alone.
\<close>

theorem buildStructuredHeader_aoid:
  assumes "extractStructuredHeader (doc sp) headerSurrogate = Some dl"
    and "compile_signature E this hdr (headerSource_of E (doc sp) hdr)
           (parseH1 E (headerSource_of E (doc sp) hdr)) sp = Inr sp1"
    and "formatHeader E (doc sp) hdr (parseH1 E (headerSource_of E (doc sp) hdr)) = (ws2, fh)"
    and "parseStructuredHeaderDl E
           (render_header E (clause_type (heap sp this)) (formattedHeader fh) hdr (doc sp))
           (clause_type (heap sp this)) dl = (ws5, dlf)"
    and "formatPreamble E
           (render_header E (clause_type (heap sp this)) (formattedHeader fh) hdr (doc sp))
           (node (heap sp this)) dl (clause_type (heap sp this))
           (case name fh of Some n \<Rightarrow> n | None \<Rightarrow> ''UNKNOWN'')
           (case formattedParams fh of Some ps \<Rightarrow> ps | None \<Rightarrow> ''UNPARSEABLE ARGUMENTS'')
           (formattedReturnType fh) (dl_for dlf) (description dlf) = (ws6, paras, d6)"
    and "attributes (nodes d6 (node (heap sp this))) = attributes (nodes (doc sp) (node (heap sp this)))"
  shows "\<exists>sp'. buildStructuredHeader E this hdr headerSurrogate sp = Inr sp' \<and>
     aoid (heap sp' this) =
       (if \<not> redefinition dlf \<and> \<not> hasAttribute (doc sp) (node (heap sp this)) ''aoid'' \<and>
           name fh \<noteq> None \<and> clause_type (heap sp this) \<in> Some ` set aoidTypes
        then name fh else aoid (heap sp this)) \<and>
     getAttribute (doc sp') (node (heap sp this)) ''aoid'' =
       (if \<not> redefinition dlf \<and> \<not> hasAttribute (doc sp) (node (heap sp this)) ''aoid'' \<and>
           name fh \<noteq> None \<and> clause_type (heap sp this) \<in> Some ` set aoidTypes
        then name fh else getAttribute (doc sp) (node (heap sp this)) ''aoid'') \<and>
     warnings sp' =
       warnings (check_numeric_method (clause_type (heap sp this)) (name fh) hdr (warn_all sp1 ws2))
       @ ws5 @ ws6 @
       (if \<not> redefinition dlf \<and> hasAttribute (doc sp) (node (heap sp this)) ''aoid''
        then [\<lparr>w_type = ''attr'', ruleId = ''header-format'',
                message = ''nodes with structured headers should not include an AOID'',
                w_node = Some (node (heap sp this)), w_attr = Some ''aoid'',
                nodeRelativeLine = None, nodeRelativeColumn = None\<rparr>]
        else [])"
proof -
  let ?ty = "clause_type (heap sp this)"
  let ?nd = "node (heap sp this)"
  let ?d4 = "render_header E ?ty (formattedHeader fh) hdr (doc sp)"
  note f1 = compile_signature_frame [OF assms(2)]
  note fp = assms(5)
  note a6 = assms(6)
  let ?sp3 = "check_numeric_method ?ty (name fh) hdr (warn_all sp1 ws2)"
  let ?sp6 = "(warn_all (warn_all (?sp3\<lparr>doc := ?d4\<rparr>) ws5) ws6)\<lparr>doc := replaceWith d6 dl paras\<rparr>"
  let ?sp7 = "assign_aoid this (redefinition dlf) (name fh) ?ty ?sp6"
  have h6: "heap ?sp6 = heap sp1" by simp
  have ha: "hasAttribute (doc ?sp6) (node (heap ?sp6 this)) ''aoid'' = hasAttribute (doc sp) ?nd ''aoid''"
    by (simp add: f1 hasAttribute_def a6)
  have ga: "getAttribute (doc ?sp6) (node (heap ?sp6 this)) ''aoid'' = getAttribute (doc sp) ?nd ''aoid''"
    by (simp add: f1 getAttribute_def a6)
  note res = buildStructuredHeader_result [OF assms(1-4) fp]
  have 1: "aoid (heap ?sp7 this) =
       (if \<not> redefinition dlf \<and> \<not> hasAttribute (doc sp) ?nd ''aoid'' \<and>
           name fh \<noteq> None \<and> ?ty \<in> Some ` set aoidTypes
        then name fh else aoid (heap sp this))"
    unfolding assign_aoid_aoid ha by (simp add: f1)
  have 2: "getAttribute (doc ?sp7) ?nd ''aoid'' =
       (if \<not> redefinition dlf \<and> \<not> hasAttribute (doc sp) ?nd ''aoid'' \<and>
           name fh \<noteq> None \<and> ?ty \<in> Some ` set aoidTypes
        then name fh else getAttribute (doc sp) ?nd ''aoid'')"
    using assign_aoid_attribute [of this "redefinition dlf" "name fh" ?ty ?sp6]
    unfolding ha ga by (simp add: f1)
  have 3: "warnings ?sp7 = warnings ?sp3 @ ws5 @ ws6 @
       (if \<not> redefinition dlf \<and> hasAttribute (doc sp) ?nd ''aoid''
        then [attr_warning ''header-format''
                ''nodes with structured headers should not include an AOID'' ?nd ''aoid'']
        else [])"
    unfolding assign_aoid_warnings ha by (simp add: f1 warn_all_def)
  show ?thesis
    unfolding res using 1 2 3 by (simp add: update_clause_def attr_warning_def)
qed

theorem buildStructuredHeader_aoid_witness:
  "extractStructuredHeader (doc (header_spec ''Foo ( )'')) 11 = Some 12 \<and>
   \<not> hasAttribute (doc (header_spec ''Foo ( )'')) 10 ''aoid'' \<and>
   clause_type (heap (header_spec ''Foo ( )'') 0) = Some ''abstract operation'' \<and>
   aoid (heap (projr (buildStructuredHeader sample_env 0 11 11 (header_spec ''Foo ( )''))) 0) =
     Some ''Foo'' \<and>
   getAttribute (doc (projr (buildStructuredHeader sample_env 0 11 11 (header_spec ''Foo ( )'')))) 10
     ''aoid'' = Some ''Foo'' \<and>
   hasAttribute (doc aoid_header_spec) 10 ''aoid'' \<and>
   aoid (heap (projr (buildStructuredHeader sample_env 0 11 11 aoid_header_spec)) 0) = Some ''Bar'' \<and>
   getAttribute (doc (projr (buildStructuredHeader sample_env 0 11 11 aoid_header_spec))) 10 ''aoid'' =
     Some ''Bar'' \<and>
   map ruleId (warnings (projr (buildStructuredHeader sample_env 0 11 11 aoid_header_spec))) =
     [''header-format''] \<and>
   map w_attr (warnings (projr (buildStructuredHeader sample_env 0 11 11 aoid_header_spec))) =
     [Some ''aoid'']"
proof -
  have no_attribute:
    "extractStructuredHeader (doc (header_spec ''Foo ( )'')) 11 = Some 12 \<and>
    \<not> hasAttribute (doc (header_spec ''Foo ( )'')) 10 ''aoid'' \<and>
    clause_type (heap (header_spec ''Foo ( )'') 0) = Some ''abstract operation'' \<and>
    aoid (heap (projr (buildStructuredHeader sample_env 0 11 11 (header_spec ''Foo ( )''))) 0) =
      Some ''Foo'' \<and>
    getAttribute (doc (projr (buildStructuredHeader sample_env 0 11 11 (header_spec ''Foo ( )'')))) 10
      ''aoid'' = Some ''Foo''"
  proof -
    let ?sp = "header_spec ''Foo ( )''"
    let ?ph = "\<lparr>ph_name = ''Foo'', params = [], optionalParams = [], returnType = None, returnOffset = 0\<rparr>"
    let ?sig = "\<lparr>parameters = [], optionalParameters = [], return = None\<rparr>"
    let ?sp1 = "update_clause ?sp 0 (\<lambda>c. c\<lparr>clause_signature := Some ?sig\<rparr>)"
    let ?fh = "\<lparr>name = Some ''Foo'', formattedHeader = Some ''Foo ( )'', formattedParams = Some [],
               formattedReturnType = None\<rparr>"
    let ?dlf = "\<lparr>description = None, dl_for = None, dl_effects = [], redefinition = False,
                dl_skipGlobalChecks = False, dl_skipReturnChecks = False\<rparr>"
    let ?d4 = "render_header sample_env (clause_type (heap ?sp 0)) (formattedHeader ?fh) 11 (doc ?sp)"
    let ?d6 = "snd (createTextNode ?d4 (''Foo'' @ '' takes '' @ []))"
    have pr: "parseH1 sample_env ''Foo ( )'' = Parsed ?ph"
      by (simp add: sample_env_parseH1)
    have h1: "extractStructuredHeader (doc ?sp) 11 = Some 12"
      by (simp add: header_spec_fields header_doc_extract)
    have h2: "compile_signature sample_env 0 11 (headerSource_of sample_env (doc ?sp) 11)
                (parseH1 sample_env (headerSource_of sample_env (doc ?sp) 11)) ?sp = Inr ?sp1"
      by (simp add: header_spec_fields header_doc_source pr compile_signature_def
            parsedHeaderToSignature_def)
    have h3: "formatHeader sample_env (doc ?sp) 11
                (parseH1 sample_env (headerSource_of sample_env (doc ?sp) 11)) = ([], ?fh)"
      by (simp add: header_spec_fields header_doc_source pr formatHeader_def sample_env_formatter)
    have h4: "parseStructuredHeaderDl sample_env ?d4 (clause_type (heap ?sp 0)) 12 = ([], ?dlf)"
      by (rule sample_env_dl)
    have h5: "formatPreamble sample_env ?d4 (node (heap ?sp 0)) 12 (clause_type (heap ?sp 0))
                (case name ?fh of Some n \<Rightarrow> n | None \<Rightarrow> ''UNKNOWN'')
                (case formattedParams ?fh of Some ps \<Rightarrow> ps | None \<Rightarrow> ''UNPARSEABLE ARGUMENTS'')
                (formattedReturnType ?fh) (dl_for ?dlf) (description ?dlf) = ([], [nextNode ?d4], ?d6)"
      by (simp add: sample_env_preamble)
    have d4: "?d4 = (header_doc ''EMU-CLAUSE'' ''Foo ( )'')\<lparr>nodes := (nodes (header_doc ''EMU-CLAUSE'' ''Foo ( )''))
             (11 := (nodes (header_doc ''EMU-CLAUSE'' ''Foo ( )'') 11)\<lparr>textData := ''Foo ( )''\<rparr>)\<rparr>"
      by (simp add: header_spec_fields sample_env_render)
    have h6: "attributes (nodes ?d6 (node (heap ?sp 0))) = attributes (nodes (doc ?sp) (node (heap ?sp 0)))"
      unfolding d4 by (simp add: header_spec_fields createTextNode_def header_doc_def)
    have na: "\<not> hasAttribute (doc ?sp) 10 ''aoid''"
      by (simp add: header_spec_fields hasAttribute_def header_doc_def)
    from buildStructuredHeader_aoid [OF h1 h2 h3 h4 h5 h6] obtain sp' where
      e: "buildStructuredHeader sample_env 0 11 11 ?sp = Inr sp'" and
      r: "aoid (heap sp' 0) = Some ''Foo''" "getAttribute (doc sp') 10 ''aoid'' = Some ''Foo''"
      using na by (auto simp add: header_spec_fields aoidTypes_def)
    from h1 na e r show ?thesis by (simp add: header_spec_fields)
  qed
  have with_attribute:
    "hasAttribute (doc aoid_header_spec) 10 ''aoid'' \<and>
    aoid (heap (projr (buildStructuredHeader sample_env 0 11 11 aoid_header_spec)) 0) = Some ''Bar'' \<and>
    getAttribute (doc (projr (buildStructuredHeader sample_env 0 11 11 aoid_header_spec))) 10 ''aoid'' =
      Some ''Bar'' \<and>
    map ruleId (warnings (projr (buildStructuredHeader sample_env 0 11 11 aoid_header_spec))) =
      [''header-format''] \<and>
    map w_attr (warnings (projr (buildStructuredHeader sample_env 0 11 11 aoid_header_spec))) =
      [Some ''aoid'']"
  proof -
    let ?sp = "aoid_header_spec"
    let ?ph = "\<lparr>ph_name = ''Foo'', params = [], optionalParams = [], returnType = None, returnOffset = 0\<rparr>"
    let ?sig = "\<lparr>parameters = [], optionalParameters = [], return = None\<rparr>"
    let ?sp1 = "update_clause ?sp 0 (\<lambda>c. c\<lparr>clause_signature := Some ?sig\<rparr>)"
    let ?fh = "\<lparr>name = Some ''Foo'', formattedHeader = Some ''Foo ( )'', formattedParams = Some [],
               formattedReturnType = None\<rparr>"
    let ?dlf = "\<lparr>description = None, dl_for = None, dl_effects = [], redefinition = False,
                dl_skipGlobalChecks = False, dl_skipReturnChecks = False\<rparr>"
    let ?d4 = "render_header sample_env (clause_type (heap ?sp 0)) (formattedHeader ?fh) 11 (doc ?sp)"
    let ?d6 = "snd (createTextNode ?d4 (''Foo'' @ '' takes '' @ []))"
    have pr: "parseH1 sample_env ''Foo ( )'' = Parsed ?ph"
      by (simp add: sample_env_parseH1)
    have h1: "extractStructuredHeader (doc ?sp) 11 = Some 12"
      by (simp add: aoid_header_spec_fields aoid_header_doc_facts)
    have h2: "compile_signature sample_env 0 11 (headerSource_of sample_env (doc ?sp) 11)
                (parseH1 sample_env (headerSource_of sample_env (doc ?sp) 11)) ?sp = Inr ?sp1"
      by (simp add: aoid_header_spec_fields aoid_header_doc_facts pr compile_signature_def
            parsedHeaderToSignature_def)
    have h3: "formatHeader sample_env (doc ?sp) 11
                (parseH1 sample_env (headerSource_of sample_env (doc ?sp) 11)) = ([], ?fh)"
      by (simp add: aoid_header_spec_fields aoid_header_doc_facts pr formatHeader_def sample_env_formatter)
    have h4: "parseStructuredHeaderDl sample_env ?d4 (clause_type (heap ?sp 0)) 12 = ([], ?dlf)"
      by (rule sample_env_dl)
    have h5: "formatPreamble sample_env ?d4 (node (heap ?sp 0)) 12 (clause_type (heap ?sp 0))
                (case name ?fh of Some n \<Rightarrow> n | None \<Rightarrow> ''UNKNOWN'')
                (case formattedParams ?fh of Some ps \<Rightarrow> ps | None \<Rightarrow> ''UNPARSEABLE ARGUMENTS'')
                (formattedReturnType ?fh) (dl_for ?dlf) (description ?dlf) = ([], [nextNode ?d4], ?d6)"
      by (simp add: sample_env_preamble)
    have d4: "?d4 = aoid_header_doc\<lparr>nodes := (nodes aoid_header_doc)
             (11 := (nodes aoid_header_doc 11)\<lparr>textData := ''Foo ( )''\<rparr>)\<rparr>"
      by (simp add: aoid_header_spec_fields sample_env_render_any)
    have h6: "attributes (nodes ?d6 (node (heap ?sp 0))) = attributes (nodes (doc ?sp) (node (heap ?sp 0)))"
      unfolding d4 by (simp add: aoid_header_spec_fields createTextNode_def aoid_header_doc_facts)
    have ya: "hasAttribute (doc ?sp) 10 ''aoid''"
      by (simp add: aoid_header_spec_fields aoid_header_doc_facts)
    have w0: "warnings (check_numeric_method (Some ''abstract operation'') (Some ''Foo'') 11
                (warn_all ?sp1 [])) = []"
      by (simp add: check_numeric_method_def aoid_header_spec_fields warn_all_def update_clause_def)
    from buildStructuredHeader_aoid [OF h1 h2 h3 h4 h5 h6] obtain sp' where
      e: "buildStructuredHeader sample_env 0 11 11 ?sp = Inr sp'" and
      r0: "aoid (heap sp' 0) = Some ''Bar''" "getAttribute (doc sp') 10 ''aoid'' = Some ''Bar''" and
      w: "warnings sp' =
            warnings (check_numeric_method (Some ''abstract operation'') (Some ''Foo'') 11
                        (warn_all ?sp1 [])) @
            [\<lparr>w_type = ''attr'', ruleId = ''header-format'',
              message = ''nodes with structured headers should not include an AOID'',
              w_node = Some 10, w_attr = Some ''aoid'',
              nodeRelativeLine = None, nodeRelativeColumn = None\<rparr>]"
      using ya by (auto simp add: aoid_header_spec_fields aoid_header_doc_facts)
    have r: "aoid (heap sp' 0) = Some ''Bar''" "getAttribute (doc sp') 10 ''aoid'' = Some ''Bar''"
         "map ruleId (warnings sp') = [''header-format'']" "map w_attr (warnings sp') = [Some ''aoid'']"
      using r0 by (simp_all add: w w0)
    from ya e r show ?thesis by simp
  qed
  from no_attribute with_attribute show ?thesis by simp
qed

lemma formatHeader_Failure [simp]:
  "snd (formatHeader E d hdr (Failure msg)) =
     \<lparr>name = None, formattedHeader = None, formattedParams = None, formattedReturnType = None\<rparr>"
  by (simp add: formatHeader_def)

lemma assign_aoid_no_name:
  "doc (assign_aoid this redef None ty sp) = doc sp"
  "clause_signature (heap (assign_aoid this redef None ty sp) c) = clause_signature (heap sp c)"
  by (simp_all add: assign_aoid_def warn_def)

text \<open>
  C5. When the header grammar fails on a structured header, buildStructuredHeader
  still returns: the clause's signature is left as it was (null, in the constructor),
  and the description list is replaced by the preamble that \<open>formatPreamble\<close> builds
  from the name \<open>UNKNOWN\<close> and the parameter text \<open>UNPARSEABLE ARGUMENTS\<close>.
\<close>

theorem buildStructuredHeader_parse_failure:
  assumes "extractStructuredHeader (doc sp) headerSurrogate = Some dl"
    and "parseH1 E (headerSource_of E (doc sp) hdr) = Failure msg"
  shows "\<exists>sp'. buildStructuredHeader E this hdr headerSurrogate sp = Inr sp' \<and>
     clause_signature (heap sp' this) = clause_signature (heap sp this) \<and>
     (let ty = clause_type (heap sp this);
          d4 = render_header E ty None hdr (doc sp);
          dlf = snd (parseStructuredHeaderDl E d4 ty dl);
          preamble = formatPreamble E d4 (node (heap sp this)) dl ty
                       ''UNKNOWN'' ''UNPARSEABLE ARGUMENTS'' None (dl_for dlf) (description dlf)
      in doc sp' = replaceWith (snd (snd preamble)) dl (fst (snd preamble)))"
proof -
  let ?ty = "clause_type (heap sp this)"
  let ?d4 = "render_header E ?ty None hdr (doc sp)"
  obtain ws2 fh where fh: "formatHeader E (doc sp) hdr (Failure msg) = (ws2, fh)"
    by (cases "formatHeader E (doc sp) hdr (Failure msg)") simp
  have fh0: "fh = \<lparr>name = None, formattedHeader = None, formattedParams = None,
                    formattedReturnType = None\<rparr>"
    using formatHeader_Failure [of E "doc sp" hdr msg] by (simp add: fh)
  obtain ws5 dlf where dl: "parseStructuredHeaderDl E ?d4 ?ty dl = (ws5, dlf)"
    by (cases "parseStructuredHeaderDl E ?d4 ?ty dl") simp
  obtain ws6 paras d6 where fp: "formatPreamble E ?d4 (node (heap sp this)) dl ?ty
       ''UNKNOWN'' ''UNPARSEABLE ARGUMENTS'' None (dl_for dlf) (description dlf) = (ws6, paras, d6)"
    by (metis prod_cases3)
  let ?sp3 = "check_numeric_method ?ty None hdr (warn_all sp ws2)"
  let ?sp6 = "(warn_all (warn_all (?sp3\<lparr>doc := ?d4\<rparr>) ws5) ws6)\<lparr>doc := replaceWith d6 dl paras\<rparr>"
  let ?sp7 = "assign_aoid this (redefinition dlf) None ?ty ?sp6"
  have cs: "compile_signature E this hdr (headerSource_of E (doc sp) hdr)
           (parseH1 E (headerSource_of E (doc sp) hdr)) sp = Inr sp"
    by (simp add: assms(2))
  have fh': "formatHeader E (doc sp) hdr (parseH1 E (headerSource_of E (doc sp) hdr)) = (ws2, fh)"
    by (simp add: assms(2) fh)
  have fmt: "formattedHeader fh = None" "name fh = None" "formattedParams fh = None"
    "formattedReturnType fh = None"
    by (simp_all add: fh0)
  note res = buildStructuredHeader_result [OF assms(1) cs fh', unfolded fmt, simplified, OF dl fp]
  show ?thesis
    unfolding res
    by (simp add: update_clause_def assign_aoid_no_name dl fp Let_def)
qed

theorem buildStructuredHeader_parse_failure_witness:
  "extractStructuredHeader (doc (header_spec ''Foo ( _x_'')) 11 = Some 12 \<and>
   parseH1 sample_env (headerSource_of sample_env (doc (header_spec ''Foo ( _x_'')) 11) =
     Failure ''unexpected token'' \<and>
   \<not> isl (buildStructuredHeader sample_env 0 11 11 (header_spec ''Foo ( _x_'')) \<and>
   clause_signature (heap (projr (buildStructuredHeader sample_env 0 11 11 (header_spec ''Foo ( _x_''))) 0) = None \<and>
   childNodes (nodes (doc (projr (buildStructuredHeader sample_env 0 11 11 (header_spec ''Foo ( _x_'')))) 10) =
     [11, 20] \<and>
   textData (nodes (doc (projr (buildStructuredHeader sample_env 0 11 11 (header_spec ''Foo ( _x_'')))) 20) =
     ''UNKNOWN takes UNPARSEABLE ARGUMENTS''"
proof -
  let ?sp = "header_spec ''Foo ( _x_''"
  have h1: "extractStructuredHeader (doc ?sp) 11 = Some 12"
    by (simp add: header_spec_fields header_doc_extract)
  have h2: "parseH1 sample_env (headerSource_of sample_env (doc ?sp) 11) = Failure ''unexpected token''"
    by (simp add: header_spec_fields header_doc_source sample_env_parseH1)
  let ?d4 = "render_header sample_env (clause_type (heap ?sp 0)) None 11 (doc ?sp)"
  have d4: "?d4 = header_doc ''EMU-CLAUSE'' ''Foo ( _x_''"
    by (simp add: header_spec_fields sample_env_render)
  from buildStructuredHeader_parse_failure [OF h1 h2, of 0] obtain sp' where
    e: "buildStructuredHeader sample_env 0 11 11 ?sp = Inr sp'" and
    s: "clause_signature (heap sp' 0) = clause_signature (heap ?sp 0)" and
    d: "doc sp' = replaceWith
          (snd (createTextNode (header_doc ''EMU-CLAUSE'' ''Foo ( _x_'')
                  (''UNKNOWN'' @ '' takes '' @ ''UNPARSEABLE ARGUMENTS'')))
          12 [nextNode (header_doc ''EMU-CLAUSE'' ''Foo ( _x_'')]"
    unfolding Let_def d4 sample_env_dl sample_env_preamble by auto
  have r: "clause_signature (heap sp' 0) = None"
       "childNodes (nodes (doc sp') 10) = [11, 20]"
       "textData (nodes (doc sp') 20) = ''UNKNOWN takes UNPARSEABLE ARGUMENTS''"
    unfolding s d
    by (simp_all add: header_spec_fields createTextNode_def replaceWith_def header_doc_def
          detach_def Let_def)
  from h1 h2 e r show ?thesis by simp
qed

text \<open>
  C3. The rendered header of a clause declared \<open>type="syntax-directed operation"\<close>
  keeps its parameter list: the formatted header \<open>Evaluation ( _x_ )\<close> is written to
  the header unchanged. Only the spelling \<open>sdo\<close> of the same kind has the list
  removed, leaving \<open>Evaluation\<close>.
\<close>

theorem render_header_syntax_directed_operation:
  "render_header E (Some ''syntax-directed operation'') (Some ''Evaluation ( _x_ )'') hdr d =
     set_innerHTML E d hdr ''Evaluation ( _x_ )'' \<and>
   render_header E (Some ''sdo'') (Some ''Evaluation ( _x_ )'') hdr d =
     (let d1 = set_innerHTML E d hdr ''Evaluation''
      in if length (children d1 hdr) = 1 \<and>
            nodeName (nodes d1 (hd (children d1 hdr))) \<in> set [''INS'', ''DEL'', ''MARK'']
         then set_innerHTML E d1 (hd (children d1 hdr)) (trim (get_innerHTML E d1 (hd (children d1 hdr))))
         else d1)"
proof -
  have i: "includes_str ''Evaluation ( _x_ )'' ''(''"
    by (simp add: includes_str_def indexOf_def startsWith_def)
  have f: "indexOf ''Evaluation ( _x_ )'' ''('' = 11"
    by (simp add: indexOf_def startsWith_def)
  have l: "lastIndexOf ''Evaluation ( _x_ )'' '')'' = 17"
    by (simp add: lastIndexOf_def startsWith_def)
  have s1: "substring ''Evaluation ( _x_ )'' 0 11 = ''Evaluation ''"
    by (simp add: substring_def clamp_index_def Let_def)
  have s2: "substring_from ''Evaluation ( _x_ )'' 18 = []"
    by (simp add: substring_from_def clamp_index_def)
  have t: "trim ''Evaluation '' = ''Evaluation''"
    by (simp add: trim_def isWhiteSpace_def)
  show ?thesis
    by (auto simp add: render_header_def i f l s1 s2 t Let_def)
qed

subsection \<open>enter\<close>

lemma env_fields_numberer:
  "Builder_init (E\<lparr>numberer_next := f\<rparr>) = Builder_init E"
  "parseH1 (E\<lparr>numberer_next := f\<rparr>) = parseH1 E"
  "TypeParser_parse (E\<lparr>numberer_next := f\<rparr>) = TypeParser_parse E"
  "header_formatter (E\<lparr>numberer_next := f\<rparr>) = header_formatter E"
  "parseStructuredHeaderDl (E\<lparr>numberer_next := f\<rparr>) = parseStructuredHeaderDl E"
  "formatPreamble (E\<lparr>numberer_next := f\<rparr>) = formatPreamble E"
  "locate (E\<lparr>numberer_next := f\<rparr>) = locate E"
  "offsetToLineAndColumn (E\<lparr>numberer_next := f\<rparr>) = offsetToLineAndColumn E"
  "get_innerHTML (E\<lparr>numberer_next := f\<rparr>) = get_innerHTML E"
  "set_innerHTML (E\<lparr>numberer_next := f\<rparr>) = set_innerHTML E"
  by simp_all

lemma parseType_numberer:
  "parseType (E\<lparr>numberer_next := f\<rparr>) ty off = parseType E ty off"
  unfolding parseType_def env_fields_numberer by (rule refl)

lemma signature_params_numberer:
  "signature_params (E\<lparr>numberer_next := f\<rparr>) ps = signature_params E ps"
proof (induction ps)
  case Nil
  show ?case by simp
next
  case (Cons p ps)
  show ?case
    unfolding signature_params.simps parseType_numberer Cons.IH by (rule refl)
qed

lemma parsedHeaderToSignature_numberer:
  "parsedHeaderToSignature (E\<lparr>numberer_next := f\<rparr>) ph = parsedHeaderToSignature E ph"
  unfolding parsedHeaderToSignature_def parseType_numberer signature_params_numberer
  by (rule refl)

lemma compile_signature_numberer:
  "compile_signature (E\<lparr>numberer_next := f\<rparr>) this hdr src pr sp =
   compile_signature E this hdr src pr sp"
  unfolding compile_signature_def parsedHeaderToSignature_numberer env_fields_numberer
  by (rule refl)

lemma buildStructuredHeader_numberer:
  "buildStructuredHeader (E\<lparr>numberer_next := f\<rparr>) this hdr sur sp =
   buildStructuredHeader E this hdr sur sp"
  unfolding buildStructuredHeader_def compile_signature_numberer formatHeader_def
    headerSource_of_def render_header_def env_fields_numberer
  by (rule refl)

lemma Clause_new_numberer:
  "Clause_new (E\<lparr>numberer_next := f\<rparr>) sp nd parent num = Clause_new E sp nd parent num"
  unfolding Clause_new_def buildStructuredHeader_numberer env_fields_numberer by (rule refl)

lemma assign_aoid_number [simp]:
  "number (heap (assign_aoid this redef nm ty sp) c) = number (heap sp c)"
  by (simp add: assign_aoid_def update_clause_def warn_def)

lemma buildStructuredHeader_number:
  assumes "buildStructuredHeader E this hdr sur sp = Inr sp'"
  shows "number (heap sp' c) = number (heap sp c)"
proof (cases "extractStructuredHeader (doc sp) sur")
  case None
  with assms show ?thesis by (simp add: buildStructuredHeader_def)
next
  case (Some dl)
  let ?src = "headerSource_of E (doc sp) hdr"
  let ?ty = "clause_type (heap sp this)"
  from assms Some obtain sp1 where
    cs: "compile_signature E this hdr ?src (parseH1 E ?src) sp = Inr sp1"
    by (cases "compile_signature E this hdr ?src (parseH1 E ?src) sp")
       (simp_all add: buildStructuredHeader_def Let_def)
  obtain ws2 fh where fh: "formatHeader E (doc sp) hdr (parseH1 E ?src) = (ws2, fh)"
    by (cases "formatHeader E (doc sp) hdr (parseH1 E ?src)") simp
  let ?d4 = "render_header E ?ty (formattedHeader fh) hdr (doc sp)"
  obtain ws5 dlf where dl: "parseStructuredHeaderDl E ?d4 ?ty dl = (ws5, dlf)"
    by (cases "parseStructuredHeaderDl E ?d4 ?ty dl") simp
  obtain ws6 paras d6 where fp: "formatPreamble E ?d4 (node (heap sp this)) dl ?ty
       (case name fh of Some n \<Rightarrow> n | None \<Rightarrow> ''UNKNOWN'')
       (case formattedParams fh of Some ps \<Rightarrow> ps | None \<Rightarrow> ''UNPARSEABLE ARGUMENTS'')
       (formattedReturnType fh) (dl_for dlf) (description dlf) = (ws6, paras, d6)"
    by (metis prod_cases3)
  note res = buildStructuredHeader_result [OF Some cs fh dl fp]
  from assms show ?thesis
    unfolding res
    by (auto simp add: update_clause_def compile_signature_frame [OF cs])
qed

lemma Clause_new_number:
  assumes "Clause_new E sp nd parent num = Inr (c, sp2)"
  shows "number (heap sp2 c) = num"
  using assms
  by (auto simp add: Clause_new_def Let_def update_clause_def warn_def
        split: option.splits if_splits sum.splits
        dest!: buildStructuredHeader_number [where c = "nextClause sp"])

lemma buildStructuredHeader_no_dl:
  "extractStructuredHeader (doc sp) sur = None \<Longrightarrow> buildStructuredHeader E this hdr sur sp = Inr sp"
  by (simp add: buildStructuredHeader_def)

lemma intro_doc_header:
  "traverseWhile_siblings intro_doc (firstElementChild intro_doc 10)
     (\<lambda>el. nodeName (nodes intro_doc el) = ''DEL'' \<or>
           (nodeName (nodes intro_doc el) = ''SPAN'' \<and> children intro_doc el = [])) = Some 11"
  "traverseWhile_once intro_doc (Some 11) firstElementChild
     (\<lambda>el. nodeName (nodes intro_doc el) = ''INS'') = Some 11"
  "extractStructuredHeader intro_doc 11 = None"
  "nodeName (nodes intro_doc 11) = ''H1''"
  "nodeName (nodes intro_doc 10) = ''EMU-INTRO''"
  "node_id intro_doc 10 = ''sec-intro''"
  "getAttribute intro_doc 10 ''aoid'' = None"
  "getAttribute intro_doc 10 ''type'' = None"
  "getAttribute intro_doc 10 ''namespace'' = None"
  by (simp_all add: intro_doc_def traverseWhile_siblings_def traverseWhile_once_def
        firstElementChild_def children_def followingElementSiblings_def
        extractStructuredHeader_def nextElementSibling_def node_id_def getAttribute_def)

lemma sample_env_Builder: "Builder_init sample_env sp nd = sp"
  by (simp add: sample_env_def)

lemma intro_Clause_new:
  "\<exists>c sp2. Clause_new sample_env (sample_spec\<lparr>doc := intro_doc, spec_subclauses := []\<rparr>) 10 None [] =
     Inr (c, sp2)"
  by (simp add: Clause_new_def Let_def sample_env_Builder intro_doc_header buildStructuredHeader_no_dl)

lemma enter_intro_numbering:
  assumes "nodeName (nodes (doc (ctx_spec ctx)) (ctx_node ctx)) = ''EMU-INTRO''"
  shows "enter (E\<lparr>numberer_next := f\<rparr>) ctx = enter E ctx \<and>
     (\<forall>ctx'. enter E ctx = Inr ctx' \<longrightarrow>
        clauseNumberer ctx' = clauseNumberer ctx \<and>
        number (heap (ctx_spec ctx') (last (clauseStack ctx'))) = [])"
proof -
  have dw: "\<And>sp w. doc (warn sp w) = doc sp" by (simp add: warn_def)
  have 1: "enter (E\<lparr>numberer_next := f\<rparr>) ctx = enter E ctx"
    using assms unfolding enter_def Clause_new_numberer by (simp add: Let_def dw)
  have 2: "clauseNumberer ctx' = clauseNumberer ctx \<and>
        number (heap (ctx_spec ctx') (last (clauseStack ctx'))) = []"
    if e: "enter E ctx = Inr ctx'" for ctx'
  proof -
    let ?sp1 = "if node_id (doc (ctx_spec ctx)) (ctx_node ctx) = []
                then warn (ctx_spec ctx) (node_warning ''missing-id'' ''clause doesn't have an id'' (ctx_node ctx))
                else ctx_spec ctx"
    let ?parent = "if clauseStack ctx = [] then None else Some (last (clauseStack ctx))"
    have nn: "nodeName (nodes (doc ?sp1) (ctx_node ctx)) = ''EMU-INTRO''"
      using assms by (simp add: dw)
    from e nn obtain c sp2 where
      cn: "Clause_new E ?sp1 (ctx_node ctx) ?parent [] = Inr (c, sp2)"
      and st: "clauseStack ctx' = clauseStack ctx @ [c]"
      and cnum: "clauseNumberer ctx' = clauseNumberer ctx"
      and sp': "ctx_spec ctx' =
          (case ?parent of
             Some p \<Rightarrow> update_clause sp2 p (\<lambda>x. x\<lparr>subclauses := subclauses x @ [c]\<rparr>)
           | None \<Rightarrow> sp2\<lparr>spec_subclauses := spec_subclauses sp2 @ [c]\<rparr>)"
      by (auto simp add: enter_def Let_def split: sum.splits)
    have "number (heap sp2 c) = []"
      using cn by (rule Clause_new_number)
    then have "number (heap (ctx_spec ctx') c) = []"
      by (auto simp add: sp' update_clause_def split: option.splits)
    with st cnum show ?thesis by simp
  qed
  from 1 2 show ?thesis by blast
qed

lemma parentClause_from_returns:
  "ancestors_end_within k d current \<Longrightarrow> \<exists>r. parentClause_from d clause_of current = Some r"
proof (induction k arbitrary: current)
  case 0
  then show ?case
    by (cases current) (subst parentClause_from.simps, simp)+
next
  case (Suc k)
  show ?case
  proof (cases current)
    case None
    then show ?thesis by (subst parentClause_from.simps) simp
  next
    case (Some n)
    show ?thesis
    proof (cases "nodeName (nodes d n) \<in> set CLAUSE_ELEMS")
      case True
      with Some show ?thesis by (subst parentClause_from.simps) simp
    next
      case False
      with Some Suc.prems have "ancestors_end_within k d (parentNode (nodes d n))" by simp
      from Suc.IH [OF this] obtain r where
        "parentClause_from d clause_of (parentNode (nodes d n)) = Some r" by blast
      with Some False show ?thesis by (subst parentClause_from.simps) simp
    qed
  qed
qed

lemma Clause_legacy_intro:
  assumes "nodeName (nodes (ls_doc sp) nd) = ''EMU-INTRO''"
    and "ancestors_end_within k (ls_doc sp) (parentNode (nodes (ls_doc sp) nd))"
  shows "Clause_legacy (E\<lparr>getNextClauseNumber := f\<rparr>) sp nd = Clause_legacy E sp nd \<and>
     (case querySelector_h1 E (ls_doc sp) nd of
        None \<Rightarrow> Clause_legacy E sp nd = Some (Inl (TypeError ''this.node is undefined''))
      | Some h \<Rightarrow>
          (\<exists>c sp'. Clause_legacy E sp nd = Some (Inr (c, sp')) \<and>
             ls_numbering sp' = ls_numbering sp \<and> lc_number (ls_heap sp' c) = Assigned []))"
proof (cases "querySelector_h1 E (ls_doc sp) nd")
  case None
  then show ?thesis by (simp add: Clause_legacy_def)
next
  case (Some hdr)
  note q = this
  from parentClause_from_returns [OF assms(2)] obtain parent where
    p: "getParentClause (ls_doc sp) ((ls_clause_of sp)(nd := Some (ls_nextClause sp))) nd = Some parent"
    unfolding getParentClause_def by blast
  from q p assms(1) show ?thesis
    by (cases parent; cases "getAttribute (ls_doc sp) nd ''aoid''")
       (simp_all add: Clause_legacy_def Let_def)
qed

text \<open>
  C8. Entering an introduction-kind node never consults the clause numberer (enter
  gives the same result whatever \<open>next\<close> function the numberer has) and never advances
  it, and the clause it pushes has the empty string as its number, wherever the node
  stands in the document. The earlier constructor, on a node whose chain of parents is
  finite, returns: it throws for a node without a header, and otherwise makes a clause
  with the empty string as its number, without calling \<open>getNextClauseNumber\<close> and
  without advancing its state.
\<close>

theorem intro_node_number:
  assumes "nodeName (nodes (doc (ctx_spec ctx)) (ctx_node ctx)) = ''EMU-INTRO''"
    and "nodeName (nodes (ls_doc lsp) nd) = ''EMU-INTRO''"
    and "ancestors_end_within k (ls_doc lsp) (parentNode (nodes (ls_doc lsp) nd))"
  shows "enter (E\<lparr>numberer_next := f\<rparr>) ctx = enter E ctx \<and>
     (\<forall>ctx'. enter E ctx = Inr ctx' \<longrightarrow>
        clauseNumberer ctx' = clauseNumberer ctx \<and>
        number (heap (ctx_spec ctx') (last (clauseStack ctx'))) = []) \<and>
     Clause_legacy (L\<lparr>getNextClauseNumber := g\<rparr>) lsp nd = Clause_legacy L lsp nd \<and>
     (case querySelector_h1 L (ls_doc lsp) nd of
        None \<Rightarrow> Clause_legacy L lsp nd = Some (Inl (TypeError ''this.node is undefined''))
      | Some h \<Rightarrow>
          (\<exists>c lsp'. Clause_legacy L lsp nd = Some (Inr (c, lsp')) \<and>
             ls_numbering lsp' = ls_numbering lsp \<and> lc_number (ls_heap lsp' c) = Assigned []))"
  using enter_intro_numbering [OF assms(1), of f E] Clause_legacy_intro [OF assms(2) assms(3), of g L]
  by blast

theorem intro_node_number_witness:
  "nodeName (nodes (doc (ctx_spec intro_ctx)) (ctx_node intro_ctx)) = ''EMU-INTRO'' \<and>
   nodeName (nodes (ls_doc legacy_intro_spec) 10) = ''EMU-INTRO'' \<and>
   parentNode (nodes (ls_doc legacy_intro_spec) 10) = Some 9 \<and>
   ancestors_end_within (Suc 0) (ls_doc legacy_intro_spec)
     (parentNode (nodes (ls_doc legacy_intro_spec) 10)) \<and>
   enter (sample_env\<lparr>numberer_next := (\<lambda>n sp st nd. (''9'', n + 5))\<rparr>) intro_ctx =
     enter sample_env intro_ctx \<and>
   \<not> isl (enter sample_env intro_ctx) \<and>
   clauseNumberer (projr (enter sample_env intro_ctx)) = 3 \<and>
   number (heap (ctx_spec (projr (enter sample_env intro_ctx)))
            (last (clauseStack (projr (enter sample_env intro_ctx))))) = [] \<and>
   Clause_legacy (legacy_sample_env\<lparr>getNextClauseNumber := (\<lambda>m depth annex. (''9'', m + 5))\<rparr>)
     legacy_intro_spec 10 = Clause_legacy legacy_sample_env legacy_intro_spec 10 \<and>
   Clause_legacy legacy_sample_env legacy_intro_spec 10 \<noteq> None \<and>
   \<not> isl (the (Clause_legacy legacy_sample_env legacy_intro_spec 10)) \<and>
   ls_numbering (snd (projr (the (Clause_legacy legacy_sample_env legacy_intro_spec 10)))) = 3 \<and>
   lc_number (ls_heap (snd (projr (the (Clause_legacy legacy_sample_env legacy_intro_spec 10))))
                (fst (projr (the (Clause_legacy legacy_sample_env legacy_intro_spec 10))))) = Assigned []"
proof -
  have f: "doc (ctx_spec intro_ctx) = intro_doc" "ctx_node intro_ctx = 10"
    "clauseStack intro_ctx = []" "clauseNumberer intro_ctx = 3"
    "ctx_spec intro_ctx = sample_spec\<lparr>doc := intro_doc, spec_subclauses := []\<rparr>"
    by (simp_all add: intro_ctx_def)
  have g: "ls_doc legacy_intro_spec = intro_doc" "ls_numbering legacy_intro_spec = 3"
    by (simp_all add: legacy_intro_spec_def)
  have h: "nodeName (nodes (doc (ctx_spec intro_ctx)) (ctx_node intro_ctx)) = ''EMU-INTRO''"
    by (simp add: f intro_doc_header)
  have h': "nodeName (nodes (ls_doc legacy_intro_spec) 10) = ''EMU-INTRO''"
    by (simp add: g intro_doc_header)
  have pn: "parentNode (nodes (ls_doc legacy_intro_spec) 10) = Some 9"
    by (simp add: g intro_doc_def)
  have an: "ancestors_end_within (Suc 0) (ls_doc legacy_intro_spec)
              (parentNode (nodes (ls_doc legacy_intro_spec) 10))"
    unfolding pn by (simp add: g intro_doc_def CLAUSE_ELEMS_def)
  have q: "querySelector_h1 legacy_sample_env (ls_doc legacy_intro_spec) 10 = Some 11"
    by (simp add: g legacy_sample_env_def firstElementChild_def children_def intro_doc_def)
  from intro_Clause_new obtain c sp2 where
    cn: "Clause_new sample_env (sample_spec\<lparr>doc := intro_doc, spec_subclauses := []\<rparr>) 10 None [] = Inr (c, sp2)"
    by blast
  have e: "\<exists>ctx'. enter sample_env intro_ctx = Inr ctx'"
    by (simp add: enter_def Let_def f intro_doc_header cn)
  then obtain ctx' where e': "enter sample_env intro_ctx = Inr ctx'" by blast
  note t = intro_node_number [OF h h' an, of "\<lambda>n sp st nd. (''9'', n + 5)" sample_env
             "\<lambda>m depth annex. (''9'', m + 5)" legacy_sample_env]
  from t q obtain lc lsp' where
    l': "Clause_legacy legacy_sample_env legacy_intro_spec 10 = Some (Inr (lc, lsp'))"
    and ln: "ls_numbering lsp' = 3" "lc_number (ls_heap lsp' lc) = Assigned []"
    by (auto simp add: g)
  from t e'
  have "enter (sample_env\<lparr>numberer_next := (\<lambda>n sp st nd. (''9'', n + 5))\<rparr>) intro_ctx =
          enter sample_env intro_ctx \<and>
        clauseNumberer ctx' = 3 \<and> number (heap (ctx_spec ctx') (last (clauseStack ctx'))) = [] \<and>
        Clause_legacy (legacy_sample_env\<lparr>getNextClauseNumber := (\<lambda>m depth annex. (''9'', m + 5))\<rparr>)
          legacy_intro_spec 10 = Clause_legacy legacy_sample_env legacy_intro_spec 10"
    by (simp add: f)
  with h h' pn an e' l' ln show ?thesis by simp
qed

end
